theory Spec2Isabelle
  imports Complex_Main
begin

section \<open>Text as Python has it\<close>

text \<open>
  A Python \<open>str\<close> is a sequence of Unicode code points, so text is a list of
  natural numbers and \<open>length\<close> counts what \<open>len\<close> counts. String constants of
  the source are written as their code points. Python's floats are modelled by
  exact rationals: the scorer only divides counts and multiplies by constants.
\<close>

type_synonym ustring = "nat list"

definition is_space :: "nat \<Rightarrow> bool" where
  \<comment> \<open>\<open>str.isspace\<close>, which is what \<open>\s\<close> of a str pattern and \<open>str.strip()\<close> test.\<close>
  "is_space c = ((9 \<le> c \<and> c \<le> 13) \<or> (28 \<le> c \<and> c \<le> 32) \<or> c = 133 \<or> c = 160
     \<or> c = 5760 \<or> (8192 \<le> c \<and> c \<le> 8202) \<or> c = 8232 \<or> c = 8233 \<or> c = 8239
     \<or> c = 8287 \<or> c = 12288)"

definition is_hangul :: "nat \<Rightarrow> bool" where
  \<comment> \<open>the class \<open>[U+AC00-U+D7A3]\<close>: precomposed Hangul syllables\<close>
  "is_hangul c = (44032 \<le> c \<and> c \<le> 55203)"

definition is_consonant_jamo :: "nat \<Rightarrow> bool" where
  \<comment> \<open>the class \<open>[U+3131-U+314E]\<close>: compatibility consonant jamo\<close>
  "is_consonant_jamo c = (12593 \<le> c \<and> c \<le> 12622)"

definition is_vowel_jamo :: "nat \<Rightarrow> bool" where
  \<comment> \<open>the class \<open>[U+314F-U+3163]\<close>: compatibility vowel jamo\<close>
  "is_vowel_jamo c = (12623 \<le> c \<and> c \<le> 12643)"

definition is_jamo :: "nat \<Rightarrow> bool" where
  "is_jamo c = (is_consonant_jamo c \<or> is_vowel_jamo c)"

definition is_punct :: "nat \<Rightarrow> bool" where
  \<comment> \<open>the literal characters \<open>. , ! ? ( )\<close> of the noise class\<close>
  "is_punct c = (c = 46 \<or> c = 44 \<or> c = 33 \<or> c = 63 \<or> c = 40 \<or> c = 41)"

definition is_broken :: "(nat \<Rightarrow> bool) \<Rightarrow> nat \<Rightarrow> bool" where
  \<comment> \<open>The negated class of \<open>broken_patterns\<close> in the scorer. \<open>w\<close> is \<open>\w\<close> of a
      str pattern (\<open>str.isalnum\<close> or underscore), a table of the Python runtime.\<close>
  "is_broken w c = (\<not> (w c \<or> is_space c \<or> is_hangul c \<or> is_consonant_jamo c
     \<or> is_vowel_jamo c \<or> is_punct c))"

definition is_surrogate :: "nat \<Rightarrow> bool" where
  "is_surrogate c = (55296 \<le> c \<and> c \<le> 57343)"

definition is_control :: "nat \<Rightarrow> bool" where
  \<comment> \<open>the class \<open>[\x00-\x08\x0B\x0C\x0E-\x1F\x7F]\<close>\<close>
  "is_control c = (c \<le> 8 \<or> c = 11 \<or> c = 12 \<or> (14 \<le> c \<and> c \<le> 31) \<or> c = 127)"

definition strip :: "ustring \<Rightarrow> ustring" where
  \<comment> \<open>\<open>str.strip()\<close>\<close>
  "strip t = rev (dropWhile is_space (rev (dropWhile is_space t)))"

definition count_chars :: "(nat \<Rightarrow> bool) \<Rightarrow> ustring \<Rightarrow> nat" where
  \<comment> \<open>\<open>len(re.findall(r'[...]', text))\<close> for a one-character class\<close>
  "count_chars P t = length (filter P t)"

function count_words :: "ustring \<Rightarrow> nat" where
  \<comment> \<open>\<open>len(re.findall(r'[U+AC00-U+D7A3]{2,}', text))\<close>: the greedy match takes a whole
      run of syllables, and a run of one syllable is no match.\<close>
  "count_words [] = 0"
| "count_words (x # xs) =
     (if is_hangul x
      then (if takeWhile is_hangul xs \<noteq> [] then 1 else 0) + count_words (dropWhile is_hangul xs)
      else count_words xs)"
  by pat_completeness auto
termination
  by (relation "measure length") (auto simp: length_dropWhile_le less_Suc_eq_le)

fun swap_jamo :: "nat \<Rightarrow> ustring \<Rightarrow> ustring" where
  \<comment> \<open>\<open>re.sub(v + '([U+3131-U+314E])', r'\1' + v, text)\<close>: matches are found left to
      right and do not overlap.\<close>
  "swap_jamo v [] = []"
| "swap_jamo v [x] = [x]"
| "swap_jamo v (x # y # xs) =
     (if x = v \<and> is_consonant_jamo y then y # v # swap_jamo v xs
      else x # swap_jamo v (y # xs))"

definition broken_patterns :: "nat list" where
  \<comment> \<open>the six vowel jamo of the pattern table, in the dict's insertion order:
      U+314F, U+3153, U+3157, U+315C, U+3161, U+3163\<close>
  "broken_patterns = [12623, 12627, 12631, 12636, 12641, 12643]"

function collapse_spaces :: "ustring \<Rightarrow> ustring" where
  \<comment> \<open>\<open>re.sub(r'\s+', ' ', text)\<close>\<close>
  "collapse_spaces [] = []"
| "collapse_spaces (x # xs) =
     (if is_space x then 32 # collapse_spaces (dropWhile is_space xs)
      else x # collapse_spaces xs)"
  by pat_completeness auto
termination
  by (relation "measure length") (auto simp: length_dropWhile_le less_Suc_eq_le)

definition after_last_newline :: "ustring \<Rightarrow> ustring" where
  \<comment> \<open>what is left of a whitespace run after its last newline\<close>
  "after_last_newline ws = rev (takeWhile (\<lambda>c. c \<noteq> 10) (rev ws))"

function collapse_blank_lines :: "ustring \<Rightarrow> ustring" where
  \<comment> \<open>\<open>re.sub(r'\n\s*\n', '\n\n', text)\<close>: after a newline the greedy \<open>\s*\<close> takes the
      whole whitespace run and backtracks to the last newline in it.\<close>
  "collapse_blank_lines [] = []"
| "collapse_blank_lines (x # xs) =
     (if x = 10 \<and> 10 \<in> set (takeWhile is_space xs)
      then 10 # 10 # collapse_blank_lines
             (after_last_newline (takeWhile is_space xs) @ dropWhile is_space xs)
      else x # collapse_blank_lines xs)"
  by pat_completeness auto
termination
proof (relation "measure length", goal_cases)
  case 1
  show ?case by simp
next
  case (2 x xs)
  have "length (after_last_newline (takeWhile is_space xs)) \<le> length (takeWhile is_space xs)"
    unfolding after_last_newline_def
    by (metis length_rev length_takeWhile_le)
  moreover have "length (takeWhile is_space xs) + length (dropWhile is_space xs) = length xs"
    by (metis length_append takeWhile_dropWhile_id)
  ultimately show ?case by simp
next
  case (3 x xs)
  show ?case by simp
qed

function decimal :: "nat \<Rightarrow> ustring" where
  \<comment> \<open>\<open>str(n)\<close> of a non-negative integer\<close>
  "decimal n = (if n < 10 then [48 + n] else decimal (n div 10) @ [48 + n mod 10])"
  by pat_completeness auto
termination
  by (relation "measure id") auto

section \<open>Settings, errors and the libraries the program calls\<close>

datatype error = Exception ustring
  \<comment> \<open>a raised \<open>Exception\<close>; the text is \<open>str(e)\<close>\<close>

datatype extraction_method = SmartKorean | AllMethods | Pdfminer | Pymupdf | Pdfplumber | Pypdf2
  \<comment> \<open>the values of the \<open>extraction_method\<close> radio buttons\<close>

datatype errors_mode = Replace | Ignore
  \<comment> \<open>the \<open>errors=\<close> argument of \<open>open\<close>\<close>

record settings =
  extraction_method :: extraction_method
  page_separator :: bool
  unicode_normalization :: bool
  font_recovery :: bool
  charset_detection :: bool
  broken_char_repair :: bool
  output_path :: ustring
  os_name :: ustring

text \<open>
  The Python runtime and the third-party libraries are not part of the repository; they
  are parameters of the model. A library that is not installed is \<open>None\<close>; a call that
  raises returns \<open>Inl\<close>. A PDF library gives the text of each page. \<open>can_write p enc
  m\<close> tells whether \<open>open(p, 'w', encoding=enc, errors=m)\<close> and the following
  \<open>write\<close> succeed.
\<close>

record libraries =
  normalize_nfc :: "ustring \<Rightarrow> error + ustring"
  word_class :: "nat \<Rightarrow> bool"
  pdfminer_extract :: "(ustring \<Rightarrow> error + ustring) option"
  fitz_pages :: "(ustring \<Rightarrow> error + ustring list) option"
  pdfplumber_pages :: "(ustring \<Rightarrow> error + ustring list) option"
  pypdf2_pages :: "(ustring \<Rightarrow> error + ustring list) option"
  can_write :: "ustring \<Rightarrow> ustring \<Rightarrow> errors_mode \<Rightarrow> bool"
  basename :: "ustring \<Rightarrow> ustring"
  stem :: "ustring \<Rightarrow> ustring"
  path_join :: "ustring \<Rightarrow> ustring \<Rightarrow> ustring"

section \<open>The Korean text repairer\<close>

definition recover_font_encoding :: "ustring \<Rightarrow> ustring" where
  \<comment> \<open>the loop over \<open>broken_patterns.items()\<close>\<close>
  "recover_font_encoding t = foldl (\<lambda>text v. swap_jamo v text) t broken_patterns"

definition cleanup :: "ustring \<Rightarrow> ustring" where
  \<comment> \<open>steps 4 to 6 of the source and the final \<open>strip()\<close>\<close>
  "cleanup t =
     (let text4 = filter (\<lambda>c. \<not> is_surrogate c) t;
          text5 = filter (\<lambda>c. \<not> is_control c) text4;
          text6 = collapse_spaces text5;
          text7 = collapse_blank_lines text6
      in strip text7)"

definition repair_steps :: "libraries \<Rightarrow> settings \<Rightarrow> ustring \<Rightarrow> error + ustring" where
  \<comment> \<open>The body of the \<open>try\<close>. The charset step only tests the result of a transcoding
      inside its own \<open>try\<close> with a bare \<open>except\<close>, and leaves \<open>text\<close> as it is.\<close>
  "repair_steps lib cfg text =
     (case (if unicode_normalization cfg then normalize_nfc lib text else Inr text) of
        Inl e \<Rightarrow> Inl e
      | Inr text1 \<Rightarrow>
          (let text2 = (if font_recovery cfg then recover_font_encoding text1 else text1);
               text3 = (if charset_detection cfg then text2 else text2)
           in Inr (cleanup text3)))"

definition repair_korean_text :: "libraries \<Rightarrow> settings \<Rightarrow> ustring \<Rightarrow> ustring" where
  "repair_korean_text lib cfg text =
     (if text = [] \<or> \<not> broken_char_repair cfg then text
      else (case repair_steps lib cfg text of
              Inl e \<Rightarrow> text
            | Inr repaired \<Rightarrow> repaired))"

section \<open>The quality scorer\<close>

definition evaluate_korean_quality :: "(nat \<Rightarrow> bool) \<Rightarrow> ustring \<Rightarrow> rat" where
  "evaluate_korean_quality w text =
     (if text = [] then 0
      else let total_chars = length (strip text) in
        if total_chars = 0 then 0
        else let
          korean_chars = count_chars is_hangul text;
          korean_ratio = of_nat korean_chars / of_nat total_chars;
          score1 = 0 + korean_ratio * 100;
          complete_korean = count_chars is_hangul text;
          incomplete_korean = count_chars is_jamo text;
          score2 = (if complete_korean + incomplete_korean > 0
                    then score1 + of_nat complete_korean
                           / of_nat (complete_korean + incomplete_korean) * 50
                    else score1);
          korean_words = count_words text;
          score3 = (if total_chars > 0
                    then score2 + min (of_nat korean_words / (of_nat total_chars / 10) * 20) 20
                    else score2);
          broken_count = count_chars (is_broken w) text;
          score4 = (if total_chars > 0
                    then score3 - of_nat broken_count / of_nat total_chars * 50
                    else score3)
        in max 0 score4)"

text \<open>The scorer as the specification words it: four ratios, weighted and floored.\<close>

definition spec_length :: "ustring \<Rightarrow> nat" where
  \<comment> \<open>the total whitespace-trimmed length\<close>
  "spec_length t = length (strip t)"

definition spec_korean_ratio :: "ustring \<Rightarrow> rat" where
  "spec_korean_ratio t = of_nat (count_chars is_hangul t) / of_nat (spec_length t)"

definition spec_complete_ratio :: "ustring \<Rightarrow> rat" where
  "spec_complete_ratio t =
     (if count_chars is_hangul t + count_chars is_jamo t = 0 then 0
      else of_nat (count_chars is_hangul t)
             / of_nat (count_chars is_hangul t + count_chars is_jamo t))"

definition spec_word_density :: "ustring \<Rightarrow> rat" where
  "spec_word_density t = of_nat (count_words t) / (of_nat (spec_length t) / 10)"

definition spec_broken_ratio :: "(nat \<Rightarrow> bool) \<Rightarrow> ustring \<Rightarrow> rat" where
  "spec_broken_ratio w t = of_nat (count_chars (is_broken w) t) / of_nat (spec_length t)"

definition spec_score :: "(nat \<Rightarrow> bool) \<Rightarrow> ustring \<Rightarrow> rat" where
  "spec_score w t =
     max 0 (spec_korean_ratio t * 100 + spec_complete_ratio t * 50
            + min (spec_word_density t * 20) 20 - spec_broken_ratio w t * 50)"

section \<open>The extraction backends\<close>

type_synonym extractor = "ustring \<Rightarrow> error + ustring"

definition page_header :: "settings \<Rightarrow> nat \<Rightarrow> ustring" where
  \<comment> \<open>the page separator line, written when \<open>page_separator\<close> is set\<close>
  "page_header cfg page_num =
     (if page_separator cfg
      then [10, 45, 45, 45, 32, 54168, 51060, 51648, 32] @ decimal (page_num + 1)
             @ [32, 45, 45, 45, 10]
      else [])"

definition extract_text_pdfminer :: "libraries \<Rightarrow> settings \<Rightarrow> extractor \<Rightarrow> extractor" where
  \<comment> \<open>the failure is raised again with the prefix of the wrapper\<close>
  "extract_text_pdfminer lib cfg extract_text pdf_path =
     (case extract_text pdf_path of
        Inl (Exception msg) \<Rightarrow>
          Inl (Exception ([112, 100, 102, 109, 105, 110, 101, 114, 32, 52628, 52636, 32,
                           49892, 54056, 58, 32] @ msg))
      | Inr text \<Rightarrow> Inr (repair_korean_text lib cfg text))"

fun pymupdf_loop :: "libraries \<Rightarrow> settings \<Rightarrow> nat \<Rightarrow> ustring list \<Rightarrow> ustring \<Rightarrow> ustring" where
  "pymupdf_loop lib cfg page_num [] text = text"
| "pymupdf_loop lib cfg page_num (page_text # pages) text =
     pymupdf_loop lib cfg (Suc page_num) pages
       (text @ page_header cfg page_num @ repair_korean_text lib cfg page_text @ [10])"

definition extract_text_pymupdf_korean ::
  "libraries \<Rightarrow> settings \<Rightarrow> (ustring \<Rightarrow> error + ustring list) \<Rightarrow> extractor" where
  "extract_text_pymupdf_korean lib cfg pages_of pdf_path =
     (case pages_of pdf_path of
        Inl (Exception msg) \<Rightarrow>
          Inl (Exception ([80, 121, 77, 117, 80, 68, 70, 32, 54620, 44544, 32, 52628, 52636,
                           32, 49892, 54056, 58, 32] @ msg))
      | Inr pages \<Rightarrow> Inr (pymupdf_loop lib cfg 0 pages []))"

fun pdfplumber_loop :: "libraries \<Rightarrow> settings \<Rightarrow> nat \<Rightarrow> ustring list \<Rightarrow> ustring \<Rightarrow> ustring" where
  "pdfplumber_loop lib cfg page_num [] text = text"
| "pdfplumber_loop lib cfg page_num (page_text # pages) text =
     pdfplumber_loop lib cfg (Suc page_num) pages
       (text @ page_header cfg page_num
          @ (if page_text \<noteq> [] then repair_korean_text lib cfg page_text @ [10] else []))"

definition extract_text_pdfplumber ::
  "libraries \<Rightarrow> settings \<Rightarrow> (ustring \<Rightarrow> error + ustring list) \<Rightarrow> extractor" where
  "extract_text_pdfplumber lib cfg pages_of pdf_path =
     (case pages_of pdf_path of
        Inl e \<Rightarrow> Inl e
      | Inr pages \<Rightarrow> Inr (pdfplumber_loop lib cfg 0 pages []))"

fun pypdf2_loop :: "libraries \<Rightarrow> settings \<Rightarrow> nat \<Rightarrow> ustring list \<Rightarrow> ustring \<Rightarrow> ustring" where
  "pypdf2_loop lib cfg page_num [] text = text"
| "pypdf2_loop lib cfg page_num (page_text # pages) text =
     pypdf2_loop lib cfg (Suc page_num) pages
       (text @ page_header cfg page_num @ repair_korean_text lib cfg page_text @ [10])"

definition extract_text_pypdf2 ::
  "libraries \<Rightarrow> settings \<Rightarrow> (ustring \<Rightarrow> error + ustring list) \<Rightarrow> extractor" where
  "extract_text_pypdf2 lib cfg pages_of pdf_path =
     (case pages_of pdf_path of
        Inl e \<Rightarrow> Inl e
      | Inr pages \<Rightarrow> Inr (pypdf2_loop lib cfg 0 pages []))"

section \<open>The method selector\<close>

definition available_methods :: "libraries \<Rightarrow> settings \<Rightarrow> (ustring \<times> extractor) list" where
  \<comment> \<open>the list \<open>methods\<close>, in the source's order, with the names given there\<close>
  "available_methods lib cfg =
     (case pdfminer_extract lib of
        Some f \<Rightarrow> [([112, 100, 102, 109, 105, 110, 101, 114, 32, 40, 54620, 44544, 53945,
                      54868, 41], extract_text_pdfminer lib cfg f)]
      | None \<Rightarrow> [])
     @ (case fitz_pages lib of
          Some f \<Rightarrow> [([80, 121, 77, 117, 80, 68, 70, 32, 40, 54620, 44544, 52572, 51201,
                        54868, 41], extract_text_pymupdf_korean lib cfg f)]
        | None \<Rightarrow> [])
     @ (case pdfplumber_pages lib of
          Some f \<Rightarrow> [([112, 100, 102, 112, 108, 117, 109, 98, 101, 114],
                       extract_text_pdfplumber lib cfg f)]
        | None \<Rightarrow> [])
     @ (case pypdf2_pages lib of
          Some f \<Rightarrow> [([80, 121, 80, 68, 70, 50], extract_text_pypdf2 lib cfg f)]
        | None \<Rightarrow> [])"

fun try_method ::
  "(nat \<Rightarrow> bool) \<Rightarrow> ustring \<Rightarrow> ustring \<times> ustring \<times> rat \<Rightarrow> ustring \<times> extractor
     \<Rightarrow> ustring \<times> ustring \<times> rat" where
  \<comment> \<open>one round of the loop over \<open>methods\<close>; a method that raises is skipped\<close>
  "try_method w pdf_path (best_text, best_method, korean_score) (method_name, method_func) =
     (case method_func pdf_path of
        Inl e \<Rightarrow> (best_text, best_method, korean_score)
      | Inr text \<Rightarrow>
          (let current_score = evaluate_korean_quality w text in
           if current_score > korean_score
              \<or> (current_score = korean_score \<and> length text > length best_text)
           then (text, method_name, current_score)
           else (best_text, best_method, korean_score)))"

definition select_best ::
  "(nat \<Rightarrow> bool) \<Rightarrow> ustring \<Rightarrow> (ustring \<times> extractor) list \<Rightarrow> ustring \<times> ustring \<times> rat" where
  "select_best w pdf_path methods = foldl (try_method w pdf_path) ([], [], 0) methods"

definition extract_text_smart_korean :: "libraries \<Rightarrow> settings \<Rightarrow> ustring \<Rightarrow> ustring" where
  "extract_text_smart_korean lib cfg pdf_path =
     fst (select_best (word_class lib) pdf_path (available_methods lib cfg))"

definition reraise :: "error + ustring \<Rightarrow> error + ustring" where
  \<comment> \<open>the \<open>except\<close> of \<open>extract_text_from_pdf\<close>: the failure is raised again with a prefix\<close>
  "reraise r =
     (case r of
        Inl (Exception msg) \<Rightarrow>
          Inl (Exception ([53581, 49828, 53944, 32, 52628, 52636, 32, 49892, 54056, 58, 32]
                          @ msg))
      | Inr text \<Rightarrow> Inr text)"

definition extract_text_from_pdf :: "libraries \<Rightarrow> settings \<Rightarrow> extractor" where
  \<comment> \<open>a pinned backend that is not installed falls back to the selector\<close>
  "extract_text_from_pdf lib cfg pdf_path =
     reraise
       (case extraction_method cfg of
          SmartKorean \<Rightarrow> Inr (extract_text_smart_korean lib cfg pdf_path)
        | AllMethods \<Rightarrow> Inr (extract_text_smart_korean lib cfg pdf_path)
        | Pdfminer \<Rightarrow>
            (case pdfminer_extract lib of
               Some f \<Rightarrow> extract_text_pdfminer lib cfg f pdf_path
             | None \<Rightarrow> Inr (extract_text_smart_korean lib cfg pdf_path))
        | Pymupdf \<Rightarrow>
            (case fitz_pages lib of
               Some f \<Rightarrow> extract_text_pymupdf_korean lib cfg f pdf_path
             | None \<Rightarrow> Inr (extract_text_smart_korean lib cfg pdf_path))
        | Pdfplumber \<Rightarrow>
            (case pdfplumber_pages lib of
               Some f \<Rightarrow> extract_text_pdfplumber lib cfg f pdf_path
             | None \<Rightarrow> Inr (extract_text_smart_korean lib cfg pdf_path))
        | Pypdf2 \<Rightarrow>
            (case pypdf2_pages lib of
               Some f \<Rightarrow> extract_text_pypdf2 lib cfg f pdf_path
             | None \<Rightarrow> Inr (extract_text_smart_korean lib cfg pdf_path)))"

section \<open>The output writer\<close>

text \<open>
  The disk maps a path to what was last written there: the encoding, the error mode and
  the text handed to \<open>write\<close>. An attempt that fails leaves the disk as it was.
\<close>

type_synonym disk = "ustring \<rightharpoonup> (ustring \<times> errors_mode \<times> ustring)"

definition encodings :: "ustring \<Rightarrow> ustring list" where
  \<comment> \<open>\<open>['utf-8', 'cp949', 'ascii']\<close> on Windows, \<open>['utf-8', 'latin-1', 'ascii']\<close> elsewhere\<close>
  "encodings os =
     (if os = [87, 105, 110, 100, 111, 119, 115]
      then [[117, 116, 102, 45, 56], [99, 112, 57, 52, 57], [97, 115, 99, 105, 105]]
      else [[117, 116, 102, 45, 56], [108, 97, 116, 105, 110, 45, 49], [97, 115, 99, 105, 105]])"

definition lossy_report :: ustring where
  \<comment> \<open>the report of the last resort: \<open>ASCII (...)\<close> with the Korean for "characters lost"\<close>
  "lossy_report = [65, 83, 67, 73, 73, 32, 40, 47928, 51088, 32, 49552, 49892, 41]"

definition failed_report :: ustring where
  \<comment> \<open>the Korean for "failed"\<close>
  "failed_report = [49892, 54056]"

fun try_encodings ::
  "libraries \<Rightarrow> ustring \<Rightarrow> ustring \<Rightarrow> ustring list \<Rightarrow> disk \<Rightarrow> (disk \<times> ustring) option" where
  \<comment> \<open>the loop over \<open>encodings\<close>: the first one that can be written is returned\<close>
  "try_encodings lib filepath text [] d = None"
| "try_encodings lib filepath text (enc # encs) d =
     (if can_write lib filepath enc Replace
      then Some (d(filepath \<mapsto> (enc, Replace, text)), enc)
      else try_encodings lib filepath text encs d)"

definition safe_write_text ::
  "libraries \<Rightarrow> settings \<Rightarrow> ustring \<Rightarrow> ustring \<Rightarrow> disk \<Rightarrow> disk \<times> bool \<times> ustring" where
  \<comment> \<open>The parameter \<open>encoding\<close> of the source is set and never read.\<close>
  "safe_write_text lib cfg filepath text d =
     (case try_encodings lib filepath text (encodings (os_name cfg)) d of
        Some (d', enc) \<Rightarrow> (d', True, enc)
      | None \<Rightarrow>
          (let ascii_text = map (\<lambda>char. if char < 128 then char else 63) text in
           if can_write lib filepath [97, 115, 99, 105, 105] Ignore
           then (d(filepath \<mapsto> ([97, 115, 99, 105, 105], Ignore, ascii_text)), True, lossy_report)
           else (d, False, failed_report)))"

section \<open>The batch orchestrator\<close>

record run =
  is_converting :: bool
  disk :: disk
  success_count :: nat
  empty_count :: nat
  error_count :: nat
  korean_recovered :: nat

record summary =
  succeeded :: nat
  recovered :: nat
  empty :: nat
  failed :: nat
  total :: nat

definition empty_message :: "ustring \<Rightarrow> ustring" where
  \<comment> \<open>the explanation written when no text was extracted: the file name, then the fixed
      Korean text (possible causes and what to do)\<close>
  "empty_message filename = filename @
     [50640, 49436, 32, 53581, 49828, 53944, 47484, 32, 52628, 52636, 54624, 32, 49688, 32,
      50630, 49845, 45768, 45796, 46, 10, 10, 44032, 45733, 54620, 32, 50896, 51064, 58, 10,
      8226, 32, 51060, 48120, 51648, 47196, 47564, 32, 44396, 49457, 46108, 32, 80, 68, 70,
      32, 40, 49828, 52884, 32, 47928, 49436, 41, 10, 8226, 32, 50516, 54840, 54868, 46104,
      44144, 45208, 32, 48372, 54840, 46108, 32, 80, 68, 70, 10, 8226, 32, 53945, 49688,
      54620, 32, 54256, 53944, 45208, 32, 51064, 53076, 46377, 32, 49324, 50857, 10, 8226,
      32, 49552, 49345, 46108, 32, 80, 68, 70, 32, 54028, 51068, 10, 10, 54644, 44208, 32,
      48169, 48277, 58, 10, 8226, 32, 79, 67, 82, 32, 54532, 47196, 44536, 47016, 32, 49324,
      50857, 32, 40, 51060, 48120, 51648, 32, 80, 68, 70, 51032, 32, 44221, 50864, 41, 10,
      8226, 32, 80, 68, 70, 32, 50516, 54840, 32, 54644, 51228, 32, 54980, 32, 51116, 49884,
      46020, 10, 8226, 32, 45796, 47480, 32, 80, 68, 70, 32, 48624, 50612, 47196, 32, 45796,
      49884, 32, 51200, 51109, 32, 54980, 32, 49884, 46020, 10]"

definition error_message :: "settings \<Rightarrow> ustring \<Rightarrow> ustring \<Rightarrow> ustring" where
  \<comment> \<open>the explanation written when the extraction raised: the file name, \<open>str(e)\<close>, the
      system's name and the fixed Korean advice\<close>
  "error_message cfg filename msg =
     [80, 68, 70, 32, 48320, 54872, 32, 49892, 54056, 58, 32] @ filename
     @ [10, 50724, 47448, 58, 32] @ msg
     @ [10, 10, 49884, 49828, 53596, 58, 32] @ os_name cfg
     @ [10, 45796, 47480, 32, 48320, 54872, 32, 48169, 48277, 51012, 32, 49884, 46020, 54644,
        48372, 49464, 50836, 58, 10, 8226, 32, 45796, 47480, 32, 46972, 51060, 48652, 47084,
        47532, 32, 48169, 48277, 32, 49440, 53469, 10, 8226, 32, 54620, 44544, 32, 48373,
        44396, 32, 50741, 49496, 32, 51312, 51221, 10, 8226, 32, 80, 68, 70, 47484, 32, 45796,
        47480, 32, 54805, 49885, 51004, 47196, 32, 51200, 51109, 32, 54980, 32, 51116, 49884,
        46020, 10]"

definition text_name :: "libraries \<Rightarrow> ustring \<Rightarrow> ustring" where
  \<comment> \<open>\<open>Path(filename).stem + ".txt"\<close>\<close>
  "text_name lib filename = stem lib filename @ [46, 116, 120, 116]"

definition error_name :: "libraries \<Rightarrow> ustring \<Rightarrow> ustring" where
  \<comment> \<open>\<open>Path(filename).stem\<close> with the suffix \<open>_\<close>, U+C624, U+B958, \<open>.txt\<close>\<close>
  "error_name lib filename = stem lib filename @ [95, 50724, 47448, 46, 116, 120, 116]"

definition stop_conversion :: "run \<Rightarrow> run" where
  "stop_conversion r = r\<lparr>is_converting := False\<rparr>"

definition conversion_finished :: "run \<Rightarrow> run" where
  "conversion_finished r = r\<lparr>is_converting := False\<rparr>"

definition convert_one :: "libraries \<Rightarrow> settings \<Rightarrow> ustring \<Rightarrow> run \<Rightarrow> run" where
  \<comment> \<open>the body of the loop over the files, after the test of the flag\<close>
  "convert_one lib cfg pdf_path r =
     (let filename = basename lib pdf_path in
      case extract_text_from_pdf lib cfg pdf_path of
        Inr text \<Rightarrow>
          (let output_filename = text_name lib filename;
               output_file = path_join lib (output_path cfg) output_filename
           in if strip text \<noteq> []
              then (case safe_write_text lib cfg output_file text (disk r) of
                      (d, success, encoding) \<Rightarrow>
                        if success
                        then r\<lparr>disk := d,
                               success_count := success_count r + 1,
                               korean_recovered :=
                                 (if count_chars is_hangul text > 0
                                  then korean_recovered r + 1 else korean_recovered r)\<rparr>
                        else r\<lparr>disk := d, error_count := error_count r + 1\<rparr>)
              else (case safe_write_text lib cfg output_file (empty_message filename) (disk r) of
                      (d, success, encoding) \<Rightarrow>
                        r\<lparr>disk := d, empty_count := empty_count r + 1\<rparr>))
      | Inl (Exception msg) \<Rightarrow>
          (let error_filename = error_name lib filename;
               error_file = path_join lib (output_path cfg) error_filename
           in case safe_write_text lib cfg error_file (error_message cfg filename msg) (disk r) of
                (d, success, encoding) \<Rightarrow>
                  r\<lparr>disk := d, error_count := error_count r + 1\<rparr>))"

text \<open>
  The flag \<open>is_converting\<close> is cleared by \<open>stop_conversion\<close>, which the other thread
  runs. \<open>stop i\<close> tells whether that happened while \<open>i\<close> files were done and
  before the next reading of the flag: at the head of the loop for file \<open>i\<close>, or at
  the test after the loop.
\<close>

fun convert_loop ::
  "libraries \<Rightarrow> settings \<Rightarrow> (nat \<Rightarrow> bool) \<Rightarrow> nat \<Rightarrow> ustring list \<Rightarrow> run \<Rightarrow> run" where
  "convert_loop lib cfg stop i [] r = (if stop i then stop_conversion r else r)"
| "convert_loop lib cfg stop i (pdf_path # rest) r =
     (let r1 = (if stop i then stop_conversion r else r) in
      if \<not> is_converting r1 then r1
      else convert_loop lib cfg stop (Suc i) rest (convert_one lib cfg pdf_path r1))"

definition convert_files ::
  "libraries \<Rightarrow> settings \<Rightarrow> (nat \<Rightarrow> bool) \<Rightarrow> ustring list \<Rightarrow> run \<Rightarrow> run \<times> summary option" where
  \<comment> \<open>The result is the state left behind and the summary that is shown, if one is.\<close>
  "convert_files lib cfg stop pdf_files r0 =
     (let r = convert_loop lib cfg stop 0 pdf_files
                (r0\<lparr>success_count := 0, empty_count := 0, error_count := 0,
                    korean_recovered := 0\<rparr>);
          shown = (if is_converting r
                   then Some \<lparr>succeeded = success_count r, recovered = korean_recovered r,
                              empty = empty_count r, failed = error_count r,
                              total = success_count r + empty_count r + error_count r\<rparr>
                   else None)
      in (conversion_finished r, shown))"

definition start_conversion ::
  "libraries \<Rightarrow> settings \<Rightarrow> (nat \<Rightarrow> bool) \<Rightarrow> ustring list \<Rightarrow> disk
     \<Rightarrow> (run \<times> summary option) option" where
  \<comment> \<open>\<open>None\<close> is the warning shown when there is no file or no output folder\<close>
  "start_conversion lib cfg stop pdf_files d =
     (if pdf_files = [] then None
      else if output_path cfg = [] then None
      else Some (convert_files lib cfg stop pdf_files
                   \<lparr>is_converting = True, disk = d, success_count = 0, empty_count = 0,
                    error_count = 0, korean_recovered = 0\<rparr>))"

section \<open>Concrete libraries for evaluation\<close>

text \<open>
  The closed statements below run the model with these stand-ins for the runtime.
  \<open>word_char\<close> is \<open>\w\<close> on ASCII, Hangul syllables and compatibility jamo.
  \<open>nfc_hangul\<close> is \<open>unicodedata.normalize('NFC', text)\<close> on text whose only code
  points with a canonical decomposition or composition are Hangul: syllables are
  decomposed and conjoining jamo composed by the arithmetic of the Unicode standard,
  every other code point is left where it is. The path functions are those of POSIX for
  relative file names.
\<close>

definition word_char :: "nat \<Rightarrow> bool" where
  "word_char c = ((48 \<le> c \<and> c \<le> 57) \<or> (65 \<le> c \<and> c \<le> 90) \<or> (97 \<le> c \<and> c \<le> 122)
     \<or> c = 95 \<or> is_hangul c \<or> is_jamo c)"

definition hangul_decompose :: "nat \<Rightarrow> ustring" where
  "hangul_decompose s =
     (if is_hangul s
      then (let i = s - 44032;
                l = 4352 + i div 588;
                v = 4449 + (i mod 588) div 28;
                t = 4519 + i mod 28
            in if i mod 28 = 0 then [l, v] else [l, v, t])
      else [s])"

definition is_leading :: "nat \<Rightarrow> bool" where
  "is_leading c = (4352 \<le> c \<and> c \<le> 4370)"

definition is_medial :: "nat \<Rightarrow> bool" where
  "is_medial c = (4449 \<le> c \<and> c \<le> 4469)"

definition is_trailing :: "nat \<Rightarrow> bool" where
  "is_trailing c = (4520 \<le> c \<and> c \<le> 4546)"

definition compose_lv :: "nat \<Rightarrow> nat \<Rightarrow> nat" where
  "compose_lv l v = 44032 + ((l - 4352) * 21 + (v - 4449)) * 28"

fun hangul_compose :: "ustring \<Rightarrow> ustring" where
  "hangul_compose (l # v # t # rest) =
     (if is_leading l \<and> is_medial v
      then (if is_trailing t then (compose_lv l v + (t - 4519)) # hangul_compose rest
            else compose_lv l v # hangul_compose (t # rest))
      else l # hangul_compose (v # t # rest))"
| "hangul_compose [l, v] = (if is_leading l \<and> is_medial v then [compose_lv l v] else [l, v])"
| "hangul_compose xs = xs"

definition nfc_hangul :: "ustring \<Rightarrow> error + ustring" where
  "nfc_hangul t = Inr (hangul_compose (concat (map hangul_decompose t)))"

definition posix_basename :: "ustring \<Rightarrow> ustring" where
  "posix_basename p = rev (takeWhile (\<lambda>c. c \<noteq> 47) (rev p))"

definition posix_stem :: "ustring \<Rightarrow> ustring" where
  "posix_stem n =
     (let suffix = takeWhile (\<lambda>c. c \<noteq> 46) (rev n);
          front = dropWhile (\<lambda>c. c \<noteq> 46) (rev n)
      in if suffix = [] \<or> length front \<le> 1 then n else rev (tl front))"

definition posix_join :: "ustring \<Rightarrow> ustring \<Rightarrow> ustring" where
  "posix_join d n =
     (if d = [] \<or> (n \<noteq> [] \<and> hd n = 47) then n
      else if last d = 47 then d @ n else d @ [47] @ n)"

definition posix_libraries :: libraries where
  \<comment> \<open>no PDF library installed, every write succeeds\<close>
  "posix_libraries =
     \<lparr>normalize_nfc = nfc_hangul, word_class = word_char,
      pdfminer_extract = None, fitz_pages = None, pdfplumber_pages = None,
      pypdf2_pages = None, can_write = (\<lambda>p enc m. True),
      basename = posix_basename, stem = posix_stem, path_join = posix_join\<rparr>"

definition default_settings :: settings where
  \<comment> \<open>the values the window starts with, an output folder \<open>out\<close> chosen, on Linux\<close>
  "default_settings =
     \<lparr>extraction_method = SmartKorean, page_separator = True,
      unicode_normalization = True, font_recovery = True, charset_detection = True,
      broken_char_repair = True, output_path = [111, 117, 116],
      os_name = [76, 105, 110, 117, 120]\<rparr>"

definition sample_pdfminer :: extractor where
  \<comment> \<open>a stand-in for pdfminer: \<open>a.pdf\<close> has the text \<open>abc\<close>, \<open>b.pdf\<close> has two
      blanks, and reading any other file raises\<close>
  "sample_pdfminer p =
     (if p = [97, 46, 112, 100, 102] then Inr [97, 98, 99]
      else if p = [98, 46, 112, 100, 102] then Inr [32, 32]
      else Inl (Exception [98, 97, 100]))"

definition sample_libraries :: libraries where
  "sample_libraries = posix_libraries\<lparr>pdfminer_extract := Some sample_pdfminer\<rparr>"

section \<open>Notions used in the statements\<close>

definition rstrip :: "ustring \<Rightarrow> ustring" where
  "rstrip t = rev (dropWhile is_space (rev t))"

definition no_double_space :: "ustring \<Rightarrow> bool" where
  \<comment> \<open>no two whitespace characters stand side by side\<close>
  "no_double_space t = successively (\<lambda>x y. \<not> (is_space x \<and> is_space y)) t"

fun has_reversed_jamo :: "ustring \<Rightarrow> bool" where
  \<comment> \<open>one of the six vowel jamo stands directly before a consonant jamo: a match of one
      of the patterns of \<open>broken_patterns\<close>\<close>
  "has_reversed_jamo (x # y # xs) =
     ((x \<in> set broken_patterns \<and> is_consonant_jamo y) \<or> has_reversed_jamo (y # xs))"
| "has_reversed_jamo xs = False"



definition utf8 :: ustring where
  "utf8 = [117, 116, 102, 45, 56]"

definition text_file :: "libraries \<Rightarrow> settings \<Rightarrow> ustring \<Rightarrow> ustring" where
  \<comment> \<open>where the text, or the explanation that there is none, of a PDF is written\<close>
  "text_file lib cfg pdf_path =
     path_join lib (output_path cfg) (text_name lib (basename lib pdf_path))"

definition error_file :: "libraries \<Rightarrow> settings \<Rightarrow> ustring \<Rightarrow> ustring" where
  \<comment> \<open>where the explanation of a failure is written\<close>
  "error_file lib cfg pdf_path =
     path_join lib (output_path cfg) (error_name lib (basename lib pdf_path))"

definition fresh_run :: "disk \<Rightarrow> run" where
  \<comment> \<open>the state in which \<open>start_conversion\<close> starts the batch\<close>
  "fresh_run d =
     \<lparr>is_converting = True, disk = d, success_count = 0, empty_count = 0, error_count = 0,
      korean_recovered = 0\<rparr>"

section \<open>Facts about the text primitives\<close>

lemma filter_dropWhile_disjoint:
  "(\<And>x. Q x \<Longrightarrow> \<not> P x) \<Longrightarrow> filter P (dropWhile Q xs) = filter P xs"
  by (induction xs) auto

lemma filter_strip:
  assumes "\<And>x. is_space x \<Longrightarrow> \<not> P x"
  shows "filter P (strip t) = filter P t"
proof -
  have "filter P (strip t) = rev (filter P (dropWhile is_space (rev (dropWhile is_space t))))"
    by (simp add: strip_def rev_filter)
  also have "\<dots> = rev (filter P (rev (dropWhile is_space t)))"
    using assms by (simp add: filter_dropWhile_disjoint)
  also have "\<dots> = filter P (dropWhile is_space t)"
    by (simp add: rev_filter)
  also have "\<dots> = filter P t"
    using assms by (simp add: filter_dropWhile_disjoint)
  finally show ?thesis .
qed

lemma hangul_not_space: "is_space x \<Longrightarrow> \<not> is_hangul x"
  by (auto simp: is_space_def is_hangul_def)

lemma count_hangul_le_strip: "count_chars is_hangul t \<le> length (strip t)"
proof -
  have "count_chars is_hangul t = length (filter is_hangul (strip t))"
    by (simp add: count_chars_def filter_strip hangul_not_space)
  also have "\<dots> \<le> length (strip t)"
    by simp
  finally show ?thesis .
qed

lemma dropWhile_all_iff: "(\<forall>x\<in>set (dropWhile P t). P x) \<longleftrightarrow> (\<forall>x\<in>set t. P x)"
  by (induction t) auto

lemma strip_Nil_iff: "strip t = [] \<longleftrightarrow> (\<forall>c\<in>set t. is_space c)"
  by (simp add: strip_def dropWhile_eq_Nil_conv dropWhile_all_iff)

section \<open>The scorer: formula and range\<close>

lemma evaluate_unfold:
  assumes "strip t \<noteq> []"
  shows "evaluate_korean_quality w t = spec_score w t"
proof -
  from assms have "t \<noteq> []" by (auto simp: strip_def)
  moreover from assms have "length (strip t) > 0" by simp
  ultimately show ?thesis
    by (simp add: evaluate_korean_quality_def spec_score_def spec_korean_ratio_def
        spec_complete_ratio_def spec_word_density_def spec_broken_ratio_def spec_length_def
        Let_def)
qed

lemma ratio_le_one: "k \<le> n \<Longrightarrow> (of_nat k :: rat) / of_nat n \<le> 1"
  by (metis bot_nat_0.not_eq_extremum div_by_0 divide_le_eq_1_pos
    linorder_linear not_one_le_zero of_nat_0 of_nat_0_less_iff
    of_nat_le_iff)

lemma korean_term_bounds: "0 \<le> spec_korean_ratio t * 100 \<and> spec_korean_ratio t * 100 \<le> 100"
proof -
  have "spec_korean_ratio t \<le> 1"
    unfolding spec_korean_ratio_def spec_length_def
    by (rule ratio_le_one [OF count_hangul_le_strip])
  moreover have "0 \<le> spec_korean_ratio t"
    by (simp add: spec_korean_ratio_def)
  ultimately show ?thesis by linarith
qed

lemma complete_term_bounds: "0 \<le> spec_complete_ratio t * 50 \<and> spec_complete_ratio t * 50 \<le> 50"
proof -
  have "spec_complete_ratio t \<le> 1"
    using ratio_le_one [of "count_chars is_hangul t" "count_chars is_hangul t + count_chars is_jamo t"]
    unfolding spec_complete_ratio_def by (simp del: of_nat_add)
  moreover have "0 \<le> spec_complete_ratio t"
    unfolding spec_complete_ratio_def by (simp del: of_nat_add)
  ultimately show ?thesis by linarith
qed

lemma density_term_bounds:
  "0 \<le> min (spec_word_density t * 20) 20 \<and> min (spec_word_density t * 20) 20 \<le> 20"
  by (simp add: spec_word_density_def)

lemma broken_term_nonneg: "0 \<le> spec_broken_ratio w t * 50"
  by (simp add: spec_broken_ratio_def)

lemma evaluate_whitespace: "strip t = [] \<Longrightarrow> evaluate_korean_quality w t = 0"
  by (simp add: evaluate_korean_quality_def)

text \<open>
  Claim C10. For every text the score lies between 0 and 170: the three positive terms
  are bounded by 100, 50 and 20, the penalty is not positive and the final \<open>max\<close>
  clamps at 0. A text of whitespace only, empty or not, scores exactly 0.
\<close>

theorem score_range:
  "0 \<le> evaluate_korean_quality w t \<and> evaluate_korean_quality w t \<le> 170
   \<and> ((\<forall>c\<in>set t. is_space c) \<longrightarrow> evaluate_korean_quality w t = 0)
   \<and> spec_korean_ratio t * 100 \<le> 100 \<and> spec_complete_ratio t * 50 \<le> 50
   \<and> min (spec_word_density t * 20) 20 \<le> 20 \<and> 0 \<le> spec_broken_ratio w t * 50"
proof -
  have "0 \<le> evaluate_korean_quality w t \<and> evaluate_korean_quality w t \<le> 170
   \<and> ((\<forall>c\<in>set t. is_space c) \<longrightarrow> evaluate_korean_quality w t = 0)"
  proof (cases "strip t = []")
    case True
    then show ?thesis by (simp add: evaluate_whitespace)
  next
    case False
    have e: "evaluate_korean_quality w t = spec_score w t"
      using False by (rule evaluate_unfold)
    have "spec_score w t \<le> 170"
      using korean_term_bounds [of t] complete_term_bounds [of t] density_term_bounds [of t]
        broken_term_nonneg [of w t]
      unfolding spec_score_def by linarith
    moreover have "0 \<le> spec_score w t"
      by (simp add: spec_score_def)
    moreover have "\<not> (\<forall>c\<in>set t. is_space c)"
      using False by (simp add: strip_Nil_iff)
    ultimately show ?thesis
      using e by auto
  qed
  then show ?thesis
    using korean_term_bounds [of t] complete_term_bounds [of t] density_term_bounds [of t]
      broken_term_nonneg [of w t]
    by blast
qed

lemmas char_class_defs = is_space_def is_hangul_def is_jamo_def is_consonant_jamo_def
  is_vowel_jamo_def is_punct_def is_broken_def word_char_def

theorem score_range_witness:
  "is_space 32 \<and> is_space 9 \<and> is_space 10
   \<and> evaluate_korean_quality word_char [32, 9, 10] = 0
   \<and> 0 \<le> evaluate_korean_quality word_char [54620, 44544, 35]
   \<and> evaluate_korean_quality word_char [54620, 44544, 35] \<le> 170"
proof -
  have "\<forall>c\<in>set [32, 9, 10]. is_space c"
    by (simp add: is_space_def)
  then show ?thesis
    using score_range [of word_char "[32, 9, 10]"] score_range [of word_char "[54620, 44544, 35]"]
    by simp
qed








section \<open>The repairer\<close>

lemma rstrip_Cons:
  "rstrip (x # xs) = (if is_space x \<and> rstrip xs = [] then [] else x # rstrip xs)"
  by (auto simp: rstrip_def dropWhile_append dropWhile_eq_Nil_conv)

lemma strip_rstrip: "strip t = rstrip (dropWhile is_space t)"
  by (simp add: strip_def rstrip_def)

lemma dropWhile_rstrip:
  "xs = [] \<or> \<not> is_space (hd xs) \<Longrightarrow> dropWhile is_space (rstrip xs) = rstrip xs"
proof (cases xs)
  case Nil
  then show ?thesis by (simp add: rstrip_def)
next
  case (Cons y ys)
  assume "xs = [] \<or> \<not> is_space (hd xs)"
  with Cons show ?thesis by (simp add: rstrip_Cons)
qed

lemma rstrip_idem: "rstrip (rstrip t) = rstrip t"
  by (simp add: rstrip_def)

lemma strip_idem: "strip (strip t) = strip t"
proof -
  have "dropWhile is_space t = [] \<or> \<not> is_space (hd (dropWhile is_space t))"
    using hd_dropWhile by blast
  then show ?thesis
    by (simp add: strip_rstrip dropWhile_rstrip rstrip_idem)
qed

lemma set_strip: "set (strip t) \<subseteq> set t"
proof
  fix x
  assume "x \<in> set (strip t)"
  then have "x \<in> set (dropWhile is_space (rev (dropWhile is_space t)))"
    by (simp add: strip_def)
  then have "x \<in> set (rev (dropWhile is_space t))"
    by (rule set_dropWhileD)
  then have "x \<in> set (dropWhile is_space t)"
    by simp
  then show "x \<in> set t"
    by (rule set_dropWhileD)
qed

lemma successively_dropWhile: "successively P xs \<Longrightarrow> successively P (dropWhile Q xs)"
  by (induction xs) (auto simp: successively_Cons)

lemma no_double_space_rev: "no_double_space (rev t) = no_double_space t"
proof -
  have "(\<lambda>x y. \<not> (is_space y \<and> is_space x)) = (\<lambda>x y. \<not> (is_space x \<and> is_space y))"
    by (intro ext) blast
  then show ?thesis
    by (simp only: no_double_space_def successively_rev)
qed

lemma no_double_space_strip: "no_double_space t \<Longrightarrow> no_double_space (strip t)"
proof -
  assume "no_double_space t"
  then have "no_double_space (dropWhile is_space t)"
    unfolding no_double_space_def by (rule successively_dropWhile)
  then have "no_double_space (rev (dropWhile is_space t))"
    by (simp only: no_double_space_rev)
  then have "no_double_space (dropWhile is_space (rev (dropWhile is_space t)))"
    unfolding no_double_space_def by (rule successively_dropWhile)
  then show ?thesis
    by (simp only: strip_def no_double_space_rev)
qed

lemma collapse_spaces_set:
  "c \<in> set (collapse_spaces t) \<Longrightarrow> c = 32 \<or> (c \<in> set t \<and> \<not> is_space c)"
  by (induction t rule: collapse_spaces.induct) (auto split: if_splits dest: set_dropWhileD)

lemma collapse_spaces_head:
  "\<not> is_space x \<Longrightarrow> collapse_spaces (x # xs) = x # collapse_spaces xs"
  by simp

lemma collapse_spaces_no_double: "no_double_space (collapse_spaces t)"
proof (induction t rule: collapse_spaces.induct)
  case 1
  show ?case by (simp add: no_double_space_def)
next
  case (2 x xs)
  show ?case
  proof (cases "is_space x")
    case True
    show ?thesis
    proof (cases "dropWhile is_space xs")
      case Nil
      show ?thesis using True by (simp add: Nil no_double_space_def)
    next
      case (Cons y ys)
      then have "\<not> is_space y" using hd_dropWhile [of is_space xs] by simp
      with 2 True show ?thesis
        by (simp add: Cons no_double_space_def)
    qed
  next
    case False
    with 2 show ?thesis
      by (cases "collapse_spaces xs") (auto simp: no_double_space_def)
  qed
qed

lemma collapse_spaces_fix:
  "(\<forall>c\<in>set t. is_space c \<longrightarrow> c = 32) \<Longrightarrow> no_double_space t \<Longrightarrow> collapse_spaces t = t"
proof (induction t)
  case Nil
  show ?case by simp
next
  case (Cons x xs)
  then have ih: "collapse_spaces xs = xs"
    by (cases xs) (auto simp: no_double_space_def)
  show ?case
  proof (cases "is_space x")
    case True
    then have "x = 32" using Cons.prems by simp
    moreover have "dropWhile is_space xs = xs"
      using Cons.prems(2) True by (cases xs) (auto simp: no_double_space_def)
    ultimately show ?thesis using True ih by simp
  next
    case False
    with ih show ?thesis by simp
  qed
qed

lemma collapse_blank_lines_fix: "10 \<notin> set t \<Longrightarrow> collapse_blank_lines t = t"
  by (induction t) auto

lemma cleanup_alt:
  "cleanup t = strip (collapse_spaces (filter (\<lambda>c. \<not> is_control c) (filter (\<lambda>c. \<not> is_surrogate c) t)))"
proof -
  have "10 \<notin> set (collapse_spaces u)" for u
    using collapse_spaces_set [of 10 u] by (auto simp: is_space_def)
  then show ?thesis
    by (simp add: cleanup_def Let_def collapse_blank_lines_fix)
qed

lemma cleanup_chars:
  assumes "c \<in> set (cleanup t)"
  shows "\<not> is_surrogate c \<and> \<not> is_control c \<and> (is_space c \<longrightarrow> c = 32)"
proof -
  from assms have "c \<in> set (collapse_spaces (filter (\<lambda>c. \<not> is_control c) (filter (\<lambda>c. \<not> is_surrogate c) t)))"
    using set_strip unfolding cleanup_alt by blast
  then have "c = 32 \<or> (c \<in> set (filter (\<lambda>c. \<not> is_control c) (filter (\<lambda>c. \<not> is_surrogate c) t)) \<and> \<not> is_space c)"
    by (rule collapse_spaces_set)
  then show ?thesis
    by (auto simp: is_surrogate_def is_control_def)
qed

lemma cleanup_no_double: "no_double_space (cleanup t)"
  unfolding cleanup_alt by (rule no_double_space_strip [OF collapse_spaces_no_double])

lemma cleanup_idem: "cleanup (cleanup t) = cleanup t"
proof -
  let ?u = "cleanup t"
  have 1: "filter (\<lambda>c. \<not> is_surrogate c) ?u = ?u"
    using cleanup_chars [of _ t] by (simp add: filter_id_conv)
  have 2: "filter (\<lambda>c. \<not> is_control c) ?u = ?u"
    using cleanup_chars [of _ t] by (simp add: filter_id_conv)
  have 3: "collapse_spaces ?u = ?u"
    using cleanup_chars [of _ t] cleanup_no_double [of t] by (simp add: collapse_spaces_fix)
  have 4: "strip ?u = ?u"
    unfolding cleanup_alt by (rule strip_idem)
  show ?thesis
    using 1 2 3 4 by (simp add: cleanup_alt [of "cleanup t"])
qed

lemma default_toggles:
  "unicode_normalization default_settings" "font_recovery default_settings"
  "charset_detection default_settings" "broken_char_repair default_settings"
  by (simp_all add: default_settings_def)

lemma posix_nfc: "normalize_nfc posix_libraries = nfc_hangul"
  by (simp add: posix_libraries_def)

lemma repair_enabled:
  "text \<noteq> [] \<Longrightarrow> broken_char_repair cfg \<Longrightarrow>
   repair_korean_text lib cfg text =
     (case repair_steps lib cfg text of Inl e \<Rightarrow> text | Inr repaired \<Rightarrow> repaired)"
  by (simp add: repair_korean_text_def)

lemma repair_steps_all:
  "unicode_normalization cfg \<Longrightarrow> font_recovery cfg \<Longrightarrow> normalize_nfc lib text = Inr text1 \<Longrightarrow>
   repair_steps lib cfg text = Inr (cleanup (recover_font_encoding text1))"
  by (simp add: repair_steps_def)

lemma repair_on:
  "text \<noteq> [] \<Longrightarrow> broken_char_repair cfg \<Longrightarrow> unicode_normalization cfg \<Longrightarrow> font_recovery cfg \<Longrightarrow>
   normalize_nfc lib text = Inr text1 \<Longrightarrow>
   repair_korean_text lib cfg text = cleanup (recover_font_encoding text1)"
  by (simp add: repair_enabled repair_steps_all)

lemma repair_default:
  "text \<noteq> [] \<Longrightarrow> nfc_hangul text = Inr text1 \<Longrightarrow>
   repair_korean_text posix_libraries default_settings text = cleanup (recover_font_encoding text1)"
  by (simp add: repair_enabled repair_steps_all default_toggles posix_nfc)

text \<open>
  Claim C9. With the toggle \<open>repair_broken_chars\<close> off the repairer returns its input
  as it is, whatever the other toggles and the libraries are.
\<close>

theorem repair_disabled:
  "repair_korean_text lib (cfg\<lparr>broken_char_repair := False\<rparr>) text = text"
  by (simp add: repair_korean_text_def)



lemma cleanup_no_newline: "10 \<notin> set (cleanup t) \<and> 9 \<notin> set (cleanup t)"
  using cleanup_chars [of 10 t] cleanup_chars [of 9 t] by (auto simp: is_space_def)

text \<open>
  Claim C6 says that the cleanup keeps newlines and tabs and collapses two or more blank
  lines to one. The substitution of \<open>\s+\<close> by one space runs first and turns every
  newline and tab into a space, so the substitution for blank lines finds nothing: no
  newline and no tab is left in the result. On \<open>a\n\n\nb\<close> the repairer returns
  \<open>a b\<close>.
\<close>

theorem blank_lines_lost:
  "repair_korean_text posix_libraries default_settings [97, 10, 10, 10, 98] = [97, 32, 98]"
proof -
  have "nfc_hangul [97, 10, 10, 10, 98] = Inr [97, 10, 10, 10, 98]"
    by (simp add: nfc_hangul_def hangul_decompose_def is_hangul_def is_leading_def)
  moreover have "recover_font_encoding [97, 10, 10, 10, 98] = [97, 10, 10, 10, 98]"
    by (simp add: recover_font_encoding_def broken_patterns_def)
  moreover have "cleanup [97, 10, 10, 10, 98] = [97, 32, 98]"
    by (simp add: cleanup_alt is_surrogate_def is_control_def is_space_def strip_def)
  ultimately show ?thesis
    by (simp add: repair_default)
qed

lemma swap_jamo_fix:
  "v \<in> set broken_patterns \<Longrightarrow> \<not> has_reversed_jamo t \<Longrightarrow> swap_jamo v t = t"
  by (induction v t rule: swap_jamo.induct) auto

lemma recover_fix: "\<not> has_reversed_jamo t \<Longrightarrow> recover_font_encoding t = t"
proof -
  assume h: "\<not> has_reversed_jamo t"
  have "foldl (\<lambda>text v. swap_jamo v text) t vs = t" if "set vs \<subseteq> set broken_patterns" for vs
    using that h by (induction vs) (auto simp: swap_jamo_fix)
  then show ?thesis
    by (simp add: recover_font_encoding_def)
qed

lemma repair_steps_Inl:
  "repair_steps lib cfg text = Inl e \<Longrightarrow> unicode_normalization cfg \<and> normalize_nfc lib text = Inl e"
  by (auto simp: repair_steps_def Let_def split: if_splits sum.splits)

lemma repair_steps_Inr:
  "repair_steps lib cfg text = Inr r \<Longrightarrow> cleanup r = r"
  by (auto simp: repair_steps_def Let_def cleanup_idem split: if_splits sum.splits)

text \<open>
  Claim C3, as amended. Applying the repairer to its own output gives that output back
  whenever the first two steps leave the output alone: the output is its own NFC form
  (when \<open>normalize_unicode\<close> is on) and none of the six vowel jamo stands directly
  before a consonant jamo in it (when \<open>recover_font_encoding\<close> is on). The cleanup of
  steps 4 and 5 is idempotent on every text.
\<close>

theorem repair_idempotent_when_stable:
  assumes nfc: "unicode_normalization cfg \<longrightarrow>
      normalize_nfc lib (repair_korean_text lib cfg text) = Inr (repair_korean_text lib cfg text)"
    and jamo: "font_recovery cfg \<longrightarrow> \<not> has_reversed_jamo (repair_korean_text lib cfg text)"
  shows "repair_korean_text lib cfg (repair_korean_text lib cfg text) = repair_korean_text lib cfg text
         \<and> cleanup (cleanup t) = cleanup t"
proof -
  let ?r = "repair_korean_text lib cfg text"
  have "repair_korean_text lib cfg ?r = ?r"
  proof (cases "?r = [] \<or> \<not> broken_char_repair cfg")
    case True
    then show ?thesis by (auto simp: repair_korean_text_def)
  next
    case False
    then have on: "broken_char_repair cfg" and ne: "?r \<noteq> []" by auto
    then have tne: "text \<noteq> []" by (auto simp: repair_korean_text_def)
    have c: "cleanup ?r = ?r"
    proof (cases "repair_steps lib cfg text")
      case (Inl e)
      then have "?r = text" by (simp add: repair_korean_text_def)
      with Inl nfc repair_steps_Inl [of lib cfg _ e] show ?thesis by simp
    next
      case (Inr r)
      then have "?r = r" using on tne by (simp add: repair_enabled)
      with repair_steps_Inr [OF Inr] show ?thesis by simp
    qed
    have "repair_steps lib cfg ?r = Inr (cleanup ?r)"
      using nfc jamo by (auto simp: repair_steps_def recover_fix)
    with c on ne show ?thesis by (simp add: repair_enabled)
  qed
  then show ?thesis by (simp add: cleanup_idem)
qed

theorem repair_idempotent_when_stable_witness:
  "normalize_nfc posix_libraries [12593, 12623, 32, 97] = Inr [12593, 12623, 32, 97]
   \<and> \<not> has_reversed_jamo [12593, 12623, 32, 97]
   \<and> repair_korean_text posix_libraries default_settings [12623, 12593, 32, 32, 97, 10]
       = [12593, 12623, 32, 97]
   \<and> repair_korean_text posix_libraries default_settings [12593, 12623, 32, 97]
       = [12593, 12623, 32, 97]"
proof -
  have n1: "nfc_hangul [12623, 12593, 32, 32, 97, 10] = Inr [12623, 12593, 32, 32, 97, 10]"
    by (simp add: nfc_hangul_def hangul_decompose_def is_hangul_def is_leading_def)
  have r1: "recover_font_encoding [12623, 12593, 32, 32, 97, 10] = [12593, 12623, 32, 32, 97, 10]"
    by (simp add: recover_font_encoding_def broken_patterns_def is_consonant_jamo_def)
  have c1: "cleanup [12593, 12623, 32, 32, 97, 10] = [12593, 12623, 32, 97]"
    by (simp add: cleanup_alt is_surrogate_def is_control_def is_space_def strip_def)
  have a: "repair_korean_text posix_libraries default_settings [12623, 12593, 32, 32, 97, 10]
             = [12593, 12623, 32, 97]"
    using n1 r1 c1 by (simp add: repair_default)
  have n: "normalize_nfc posix_libraries [12593, 12623, 32, 97] = Inr [12593, 12623, 32, 97]"
    by (simp add: posix_nfc nfc_hangul_def hangul_decompose_def is_hangul_def is_leading_def)
  have j: "\<not> has_reversed_jamo [12593, 12623, 32, 97]"
    by (simp add: broken_patterns_def is_consonant_jamo_def)
  from repair_idempotent_when_stable
         [of default_settings posix_libraries "[12623, 12593, 32, 32, 97, 10]"]
  have "repair_korean_text posix_libraries default_settings [12593, 12623, 32, 97]
          = [12593, 12623, 32, 97]"
    using a n j by simp
  with a n j show ?thesis by simp
qed

text \<open>
  Claim C3 as stated fails: with every toggle on, the vowel jamo U+314F twice and the
  consonant jamo U+3131 after them are repaired to vowel, consonant, vowel, and a second
  pass moves the consonant to the front.
\<close>

theorem repair_not_idempotent:
  "repair_korean_text posix_libraries default_settings
     (repair_korean_text posix_libraries default_settings [12623, 12623, 12593])
   \<noteq> repair_korean_text posix_libraries default_settings [12623, 12623, 12593]"
proof -
  have n1: "nfc_hangul [12623, 12623, 12593] = Inr [12623, 12623, 12593]"
    by (simp add: nfc_hangul_def hangul_decompose_def is_hangul_def is_leading_def)
  have r1: "recover_font_encoding [12623, 12623, 12593] = [12623, 12593, 12623]"
    by (simp add: recover_font_encoding_def broken_patterns_def is_consonant_jamo_def)
  have c1: "cleanup [12623, 12593, 12623] = [12623, 12593, 12623]"
    by (simp add: cleanup_alt is_surrogate_def is_control_def is_space_def strip_def)
  have n2: "nfc_hangul [12623, 12593, 12623] = Inr [12623, 12593, 12623]"
    by (simp add: nfc_hangul_def hangul_decompose_def is_hangul_def is_leading_def)
  have r2: "recover_font_encoding [12623, 12593, 12623] = [12593, 12623, 12623]"
    by (simp add: recover_font_encoding_def broken_patterns_def is_consonant_jamo_def)
  have c2: "cleanup [12593, 12623, 12623] = [12593, 12623, 12623]"
    by (simp add: cleanup_alt is_surrogate_def is_control_def is_space_def strip_def)
  have a: "repair_korean_text posix_libraries default_settings [12623, 12623, 12593]
             = [12623, 12593, 12623]"
    using n1 r1 c1 by (simp add: repair_default)
  have b: "repair_korean_text posix_libraries default_settings [12623, 12593, 12623]
             = [12593, 12623, 12623]"
    using n2 r2 c2 by (simp add: repair_default)
  show ?thesis
    by (simp add: a b)
qed

section \<open>The selector\<close>

lemma evaluate_nonneg: "0 \<le> evaluate_korean_quality w t"
  by (simp add: evaluate_korean_quality_def Let_def)







section \<open>The output writer\<close>

lemma try_encodings_none:
  "(\<forall>enc\<in>set encs. \<not> can_write lib filepath enc Replace) \<Longrightarrow>
   try_encodings lib filepath text encs d = None"
  by (induction encs) auto

lemma lossy_report_fresh: "lossy_report \<notin> set (encodings os) \<and> failed_report \<notin> set (encodings os)"
  by (simp add: lossy_report_def failed_report_def encodings_def)

text \<open>
  Claim C7. When no encoding of the fallback list can be written, the writer replaces
  every character outside ASCII by a question mark and attempts one more write, as ASCII
  with the error mode \<open>ignore\<close>. When that write succeeds it reports success with a
  report of its own for the lossy mode, which is none of the encodings a normal success
  reports; when it fails too, the writer reports failure and the disk is unchanged.
\<close>

theorem writer_last_resort:
  assumes "\<forall>enc\<in>set (encodings (os_name cfg)). \<not> can_write lib filepath enc Replace"
  shows "safe_write_text lib cfg filepath text d =
           (if can_write lib filepath [97, 115, 99, 105, 105] Ignore
            then (d(filepath \<mapsto> ([97, 115, 99, 105, 105], Ignore,
                                 map (\<lambda>char. if char < 128 then char else 63) text)),
                  True, lossy_report)
            else (d, False, failed_report))
         \<and> lossy_report \<notin> set (encodings (os_name cfg))
         \<and> (\<forall>d' enc. try_encodings lib' filepath text (encodings (os_name cfg)) d = Some (d', enc)
                \<longrightarrow> snd (snd (safe_write_text lib' cfg filepath text d)) \<noteq> lossy_report)"
proof -
  have a: "safe_write_text lib cfg filepath text d =
           (if can_write lib filepath [97, 115, 99, 105, 105] Ignore
            then (d(filepath \<mapsto> ([97, 115, 99, 105, 105], Ignore,
                                 map (\<lambda>char. if char < 128 then char else 63) text)),
                  True, lossy_report)
            else (d, False, failed_report))"
    using try_encodings_none [OF assms] by (simp add: safe_write_text_def Let_def)
  have c: "snd (snd (safe_write_text lib' cfg filepath text d)) \<noteq> lossy_report"
    if "try_encodings lib' filepath text (encodings (os_name cfg)) d = Some (d', enc)" for d' enc
  proof -
    have "enc \<in> set encs" if "try_encodings lib' filepath text encs d = Some (d', enc)" for encs
      using that by (induction encs) (auto split: if_splits)
    from this [OF that] have "enc \<noteq> lossy_report"
      using lossy_report_fresh by metis
    with that show ?thesis by (simp add: safe_write_text_def)
  qed
  from a c lossy_report_fresh show ?thesis by blast
qed

theorem writer_last_resort_witness:
  "\<not> can_write (posix_libraries\<lparr>can_write := \<lambda>p enc m. m = Ignore\<rparr>) [111] [117, 116, 102, 45, 56] Replace
   \<and> safe_write_text (posix_libraries\<lparr>can_write := \<lambda>p enc m. m = Ignore\<rparr>) default_settings
         [111] [54620, 97] Map.empty
       = (Map.empty([111] \<mapsto> ([97, 115, 99, 105, 105], Ignore, [63, 97])), True, lossy_report)"
proof -
  have "\<forall>enc\<in>set (encodings (os_name default_settings)).
          \<not> can_write (posix_libraries\<lparr>can_write := \<lambda>p enc m. m = Ignore\<rparr>) [111] enc Replace"
    by simp
  from writer_last_resort [OF this, of "[54620, 97]" Map.empty]
  show ?thesis by simp
qed

section \<open>The batch orchestrator\<close>

lemma safe_write_utf8:
  "can_write lib filepath [117, 116, 102, 45, 56] Replace \<Longrightarrow>
   safe_write_text lib cfg filepath text d =
     (d(filepath \<mapsto> ([117, 116, 102, 45, 56], Replace, text)), True, [117, 116, 102, 45, 56])"
  by (simp add: safe_write_text_def encodings_def)

lemma convert_one_success:
  assumes "extract_text_from_pdf lib cfg pdf_path = Inr text" and "strip text \<noteq> []"
    and "can_write lib (path_join lib (output_path cfg) (text_name lib (basename lib pdf_path)))
           [117, 116, 102, 45, 56] Replace"
  shows "convert_one lib cfg pdf_path r =
     r\<lparr>disk := (disk r)(path_join lib (output_path cfg) (text_name lib (basename lib pdf_path))
                     \<mapsto> ([117, 116, 102, 45, 56], Replace, text)),
       success_count := success_count r + 1,
       korean_recovered := (if count_chars is_hangul text > 0
                            then korean_recovered r + 1 else korean_recovered r)\<rparr>"
  using assms by (simp add: convert_one_def Let_def safe_write_utf8)

lemma convert_one_empty:
  assumes "extract_text_from_pdf lib cfg pdf_path = Inr text" and "strip text = []"
    and "can_write lib (path_join lib (output_path cfg) (text_name lib (basename lib pdf_path)))
           [117, 116, 102, 45, 56] Replace"
  shows "convert_one lib cfg pdf_path r =
     r\<lparr>disk := (disk r)(path_join lib (output_path cfg) (text_name lib (basename lib pdf_path))
                     \<mapsto> ([117, 116, 102, 45, 56], Replace, empty_message (basename lib pdf_path))),
       empty_count := empty_count r + 1\<rparr>"
  using assms by (simp add: convert_one_def Let_def safe_write_utf8)

lemma convert_one_error:
  assumes "extract_text_from_pdf lib cfg pdf_path = Inl (Exception msg)"
    and "can_write lib (path_join lib (output_path cfg) (error_name lib (basename lib pdf_path)))
           [117, 116, 102, 45, 56] Replace"
  shows "convert_one lib cfg pdf_path r =
     r\<lparr>disk := (disk r)(path_join lib (output_path cfg) (error_name lib (basename lib pdf_path))
                     \<mapsto> ([117, 116, 102, 45, 56], Replace,
                          error_message cfg (basename lib pdf_path) msg)),
       error_count := error_count r + 1\<rparr>"
  using assms by (simp add: convert_one_def Let_def safe_write_utf8)

lemma convert_one_flag: "is_converting (convert_one lib cfg pdf_path r) = is_converting r"
  by (simp add: convert_one_def Let_def split: sum.splits error.splits prod.splits)

lemma foldl_convert_flag:
  "is_converting (foldl (\<lambda>r p. convert_one lib cfg p r) r files) = is_converting r"
  by (induction files arbitrary: r) (simp_all add: convert_one_flag)

lemma convert_loop_run:
  "is_converting r \<Longrightarrow>
   convert_loop lib cfg (\<lambda>i. False) i files r = foldl (\<lambda>r p. convert_one lib cfg p r) r files"
  by (induction files arbitrary: i r) (simp_all add: convert_one_flag)

lemma convert_loop_stop:
  "is_converting r \<Longrightarrow> (\<forall>j<length done. \<not> stop (i + j)) \<Longrightarrow> stop (i + length done) \<Longrightarrow>
   convert_loop lib cfg stop i (done @ rest) r
     = stop_conversion (foldl (\<lambda>r p. convert_one lib cfg p r) r done)"
proof (induction "done" arbitrary: i r)
  case Nil
  then show ?case by (cases rest) (simp_all add: stop_conversion_def)
next
  case (Cons p ps)
  have a: "\<not> stop i" using Cons.prems(2) by force
  have b: "\<forall>j<length ps. \<not> stop (Suc i + j)"
    using Cons.prems(2) by force
  have c: "stop (Suc i + length ps)" using Cons.prems(3) by simp
  have "is_converting (convert_one lib cfg p r)"
    using Cons.prems(1) by (simp add: convert_one_flag)
  from Cons.IH [OF this b c] a Cons.prems(1) show ?case by simp
qed

lemma all_raise_select:
  assumes "\<forall>(n, f)\<in>set methods. \<exists>e. f pdf_path = Inl e"
  shows "foldl (try_method w pdf_path) s methods = s"
  using assms
proof (induction methods arbitrary: s)
  case Nil
  show ?case by simp
next
  case (Cons m ms)
  obtain n f where m: "m = (n, f)" by (cases m)
  obtain bt bm ks where s: "s = (bt, bm, ks)" by (cases s)
  from Cons.prems m obtain e where "f pdf_path = Inl e" by auto
  then have "try_method w pdf_path s m = s" by (simp add: m s)
  with Cons show ?case by simp
qed

lemma all_raise_smart:
  "\<forall>(n, f)\<in>set (available_methods lib cfg). \<exists>e. f pdf_path = Inl e \<Longrightarrow>
   extract_text_smart_korean lib cfg pdf_path = []"
  by (simp add: extract_text_smart_korean_def select_best_def all_raise_select)

lemma start_conversion_runs:
  "pdf_files \<noteq> [] \<Longrightarrow> output_path cfg \<noteq> [] \<Longrightarrow>
   start_conversion lib cfg stop pdf_files d = Some (convert_files lib cfg stop pdf_files (fresh_run d))"
  by (simp add: start_conversion_def fresh_run_def)

lemma convert_files_run:
  "convert_files lib cfg (\<lambda>i. False) pdf_files (fresh_run d) =
     (let r = foldl (\<lambda>r p. convert_one lib cfg p r) (fresh_run d) pdf_files
      in (conversion_finished r,
          Some \<lparr>succeeded = success_count r, recovered = korean_recovered r,
                empty = empty_count r, failed = error_count r,
                total = success_count r + empty_count r + error_count r\<rparr>))"
proof -
  have "fresh_run d\<lparr>success_count := 0, empty_count := 0, error_count := 0, korean_recovered := 0\<rparr>
          = fresh_run d"
    by (simp add: fresh_run_def)
  moreover have "is_converting (fresh_run d)"
    by (simp add: fresh_run_def)
  ultimately show ?thesis
    by (simp add: convert_files_def convert_loop_run foldl_convert_flag Let_def)
qed

lemma smart_all_raise:
  assumes "extraction_method cfg \<in> {SmartKorean, AllMethods}"
    and "\<forall>(n, f)\<in>set (available_methods lib cfg). \<exists>e. f pdf_path = Inl e"
  shows "extract_text_from_pdf lib cfg pdf_path = Inr []"
  using assms(1) all_raise_smart [OF assms(2)]
  by (auto simp: extract_text_from_pdf_def reraise_def)

lemma three_files:
  assumes out: "output_path cfg \<noteq> []"
    and wr: "\<forall>p. can_write lib p utf8 Replace"
    and A: "extract_text_from_pdf lib cfg pA = Inr tA" and A': "strip tA \<noteq> []"
    and B: "extract_text_from_pdf lib cfg pB = Inr tB" and B': "strip tB = []"
  shows "(extract_text_from_pdf lib cfg pC = Inr tC \<and> strip tC = [] \<longrightarrow>
            start_conversion lib cfg (\<lambda>i. False) [pA, pB, pC] d =
              Some (\<lparr>is_converting = False,
                     disk = d(text_file lib cfg pA \<mapsto> (utf8, Replace, tA),
                              text_file lib cfg pB \<mapsto> (utf8, Replace, empty_message (basename lib pB)),
                              text_file lib cfg pC \<mapsto> (utf8, Replace, empty_message (basename lib pC))),
                     success_count = 1, empty_count = 2, error_count = 0,
                     korean_recovered = (if count_chars is_hangul tA > 0 then 1 else 0)\<rparr>,
                    Some \<lparr>succeeded = 1,
                          recovered = (if count_chars is_hangul tA > 0 then 1 else 0),
                          empty = 2, failed = 0, total = 3\<rparr>))
       \<and> (extract_text_from_pdf lib cfg pC = Inl (Exception msg) \<longrightarrow>
            start_conversion lib cfg (\<lambda>i. False) [pA, pB, pC] d =
              Some (\<lparr>is_converting = False,
                     disk = d(text_file lib cfg pA \<mapsto> (utf8, Replace, tA),
                              text_file lib cfg pB \<mapsto> (utf8, Replace, empty_message (basename lib pB)),
                              error_file lib cfg pC \<mapsto> (utf8, Replace, error_message cfg (basename lib pC) msg)),
                     success_count = 1, empty_count = 1, error_count = 1,
                     korean_recovered = (if count_chars is_hangul tA > 0 then 1 else 0)\<rparr>,
                    Some \<lparr>succeeded = 1,
                          recovered = (if count_chars is_hangul tA > 0 then 1 else 0),
                          empty = 1, failed = 1, total = 3\<rparr>))"
proof -
  have w: "can_write lib p [117, 116, 102, 45, 56] Replace" for p
    using wr by (simp add: utf8_def)
  have a: "convert_one lib cfg pA r =
     r\<lparr>disk := (disk r)(text_file lib cfg pA \<mapsto> (utf8, Replace, tA)),
       success_count := success_count r + 1,
       korean_recovered := (if count_chars is_hangul tA > 0
                            then korean_recovered r + 1 else korean_recovered r)\<rparr>" for r
    using convert_one_success [OF A A' w] by (simp add: text_file_def utf8_def)
  have b: "convert_one lib cfg pB r =
     r\<lparr>disk := (disk r)(text_file lib cfg pB \<mapsto> (utf8, Replace, empty_message (basename lib pB))),
       empty_count := empty_count r + 1\<rparr>" for r
    using convert_one_empty [OF B B' w] by (simp add: text_file_def utf8_def)
  have c1: "convert_one lib cfg pC r =
     r\<lparr>disk := (disk r)(text_file lib cfg pC \<mapsto> (utf8, Replace, empty_message (basename lib pC))),
       empty_count := empty_count r + 1\<rparr>"
    if "extract_text_from_pdf lib cfg pC = Inr tC" "strip tC = []" for r
    using convert_one_empty [OF that w] by (simp add: text_file_def utf8_def)
  have c2: "convert_one lib cfg pC r =
     r\<lparr>disk := (disk r)(error_file lib cfg pC \<mapsto> (utf8, Replace, error_message cfg (basename lib pC) msg)),
       error_count := error_count r + 1\<rparr>"
    if "extract_text_from_pdf lib cfg pC = Inl (Exception msg)" for r
    using convert_one_error [OF that w] by (simp add: error_file_def utf8_def)
  have s: "start_conversion lib cfg (\<lambda>i. False) [pA, pB, pC] d
             = Some (convert_files lib cfg (\<lambda>i. False) [pA, pB, pC] (fresh_run d))"
    using out by (simp add: start_conversion_runs)
  show ?thesis
  proof (intro conjI impI)
    assume "extract_text_from_pdf lib cfg pC = Inr tC \<and> strip tC = []"
    then have c: "convert_one lib cfg pC r =
     r\<lparr>disk := (disk r)(text_file lib cfg pC \<mapsto> (utf8, Replace, empty_message (basename lib pC))),
       empty_count := empty_count r + 1\<rparr>" for r
      using c1 by blast
    show "start_conversion lib cfg (\<lambda>i. False) [pA, pB, pC] d =
              Some (\<lparr>is_converting = False,
                     disk = d(text_file lib cfg pA \<mapsto> (utf8, Replace, tA),
                              text_file lib cfg pB \<mapsto> (utf8, Replace, empty_message (basename lib pB)),
                              text_file lib cfg pC \<mapsto> (utf8, Replace, empty_message (basename lib pC))),
                     success_count = 1, empty_count = 2, error_count = 0,
                     korean_recovered = (if count_chars is_hangul tA > 0 then 1 else 0)\<rparr>,
                    Some \<lparr>succeeded = 1,
                          recovered = (if count_chars is_hangul tA > 0 then 1 else 0),
                          empty = 2, failed = 0, total = 3\<rparr>)"
      unfolding s convert_files_run
      by (simp add: a b c fresh_run_def conversion_finished_def Let_def)
  next
    assume "extract_text_from_pdf lib cfg pC = Inl (Exception msg)"
    then have c: "convert_one lib cfg pC r =
     r\<lparr>disk := (disk r)(error_file lib cfg pC \<mapsto> (utf8, Replace, error_message cfg (basename lib pC) msg)),
       error_count := error_count r + 1\<rparr>" for r
      using c2 by blast
    show "start_conversion lib cfg (\<lambda>i. False) [pA, pB, pC] d =
              Some (\<lparr>is_converting = False,
                     disk = d(text_file lib cfg pA \<mapsto> (utf8, Replace, tA),
                              text_file lib cfg pB \<mapsto> (utf8, Replace, empty_message (basename lib pB)),
                              error_file lib cfg pC \<mapsto> (utf8, Replace, error_message cfg (basename lib pC) msg)),
                     success_count = 1, empty_count = 1, error_count = 1,
                     korean_recovered = (if count_chars is_hangul tA > 0 then 1 else 0)\<rparr>,
                    Some \<lparr>succeeded = 1,
                          recovered = (if count_chars is_hangul tA > 0 then 1 else 0),
                          empty = 1, failed = 1, total = 3\<rparr>)"
      unfolding s convert_files_run
      by (simp add: a b c fresh_run_def conversion_finished_def Let_def)
  qed
qed

lemma sample_fields:
  "normalize_nfc sample_libraries = nfc_hangul"
  "word_class sample_libraries = word_char"
  "pdfminer_extract sample_libraries = Some sample_pdfminer"
  "fitz_pages sample_libraries = None"
  "pdfplumber_pages sample_libraries = None"
  "pypdf2_pages sample_libraries = None"
  "can_write sample_libraries = (\<lambda>p enc m. True)"
  "basename sample_libraries = posix_basename"
  "stem sample_libraries = posix_stem"
  "path_join sample_libraries = posix_join"
  by (simp_all add: sample_libraries_def posix_libraries_def)

lemma sample_repair_abc:
  assumes "broken_char_repair cfg" "unicode_normalization cfg" "font_recovery cfg"
  shows "repair_korean_text sample_libraries cfg [97, 98, 99] = [97, 98, 99]"
proof -
  have "normalize_nfc sample_libraries [97, 98, 99] = Inr [97, 98, 99]"
    by (simp add: sample_fields nfc_hangul_def hangul_decompose_def is_hangul_def is_leading_def)
  moreover have "recover_font_encoding [97, 98, 99] = [97, 98, 99]"
    by (simp add: recover_font_encoding_def broken_patterns_def)
  moreover have "cleanup [97, 98, 99] = [97, 98, 99]"
    by (simp add: cleanup_alt is_surrogate_def is_control_def is_space_def strip_def)
  ultimately show ?thesis
    using assms by (simp add: repair_on)
qed

lemma sample_repair_blank:
  assumes "broken_char_repair cfg" "unicode_normalization cfg" "font_recovery cfg"
  shows "repair_korean_text sample_libraries cfg [32, 32] = []"
proof -
  have "normalize_nfc sample_libraries [32, 32] = Inr [32, 32]"
    by (simp add: sample_fields nfc_hangul_def hangul_decompose_def is_hangul_def is_leading_def)
  moreover have "recover_font_encoding [32, 32] = [32, 32]"
    by (simp add: recover_font_encoding_def broken_patterns_def)
  moreover have "cleanup [32, 32] = []"
    by (simp add: cleanup_alt is_surrogate_def is_control_def is_space_def strip_def)
  ultimately show ?thesis
    using assms by (simp add: repair_on)
qed

lemma sample_pdfminer_files:
  "sample_pdfminer [97, 46, 112, 100, 102] = Inr [97, 98, 99]"
  "sample_pdfminer [98, 46, 112, 100, 102] = Inr [32, 32]"
  "sample_pdfminer [99, 46, 112, 100, 102] = Inl (Exception [98, 97, 100])"
  by (simp_all add: sample_pdfminer_def)

lemma sample_wrapper:
  assumes "broken_char_repair cfg" "unicode_normalization cfg" "font_recovery cfg"
  shows "extract_text_pdfminer sample_libraries cfg sample_pdfminer [97, 46, 112, 100, 102]
           = Inr [97, 98, 99]"
    and "extract_text_pdfminer sample_libraries cfg sample_pdfminer [98, 46, 112, 100, 102] = Inr []"
    and "extract_text_pdfminer sample_libraries cfg sample_pdfminer [99, 46, 112, 100, 102]
           = Inl (Exception [112, 100, 102, 109, 105, 110, 101, 114, 32, 52628, 52636, 32,
                             49892, 54056, 58, 32, 98, 97, 100])"
  using assms
  by (simp_all add: extract_text_pdfminer_def sample_pdfminer_files sample_repair_abc
      sample_repair_blank)

lemma sample_methods:
  "available_methods sample_libraries cfg =
     [([112, 100, 102, 109, 105, 110, 101, 114, 32, 40, 54620, 44544, 53945, 54868, 41],
       extract_text_pdfminer sample_libraries cfg sample_pdfminer)]"
  by (simp add: available_methods_def sample_fields)

lemma sample_smart:
  "extract_text_from_pdf sample_libraries default_settings [97, 46, 112, 100, 102] = Inr [97, 98, 99]"
  "extract_text_from_pdf sample_libraries default_settings [98, 46, 112, 100, 102] = Inr []"
  "extract_text_from_pdf sample_libraries default_settings [99, 46, 112, 100, 102] = Inr []"
proof -
  have m: "extraction_method default_settings = SmartKorean"
    by (simp add: default_settings_def)
  have e: "evaluate_korean_quality word_char [97, 98, 99] = 0"
    by (simp add: evaluate_korean_quality_def strip_def count_chars_def char_class_defs)
  have z: "evaluate_korean_quality word_char [] = 0"
    by (simp add: evaluate_korean_quality_def)
  show "extract_text_from_pdf sample_libraries default_settings [97, 46, 112, 100, 102] = Inr [97, 98, 99]"
    by (simp add: extract_text_from_pdf_def m reraise_def extract_text_smart_korean_def
        select_best_def sample_methods sample_wrapper default_toggles sample_fields e)
  show "extract_text_from_pdf sample_libraries default_settings [98, 46, 112, 100, 102] = Inr []"
    by (simp add: extract_text_from_pdf_def m reraise_def extract_text_smart_korean_def
        select_best_def sample_methods sample_wrapper default_toggles sample_fields z)
  show "extract_text_from_pdf sample_libraries default_settings [99, 46, 112, 100, 102] = Inr []"
    by (simp add: extract_text_from_pdf_def m reraise_def extract_text_smart_korean_def
        select_best_def sample_methods sample_wrapper default_toggles sample_fields)
qed

lemma sample_pinned:
  "extract_text_from_pdf sample_libraries (default_settings\<lparr>extraction_method := Pdfminer\<rparr>)
     [97, 46, 112, 100, 102] = Inr [97, 98, 99]"
  "extract_text_from_pdf sample_libraries (default_settings\<lparr>extraction_method := Pdfminer\<rparr>)
     [98, 46, 112, 100, 102] = Inr []"
  "extract_text_from_pdf sample_libraries (default_settings\<lparr>extraction_method := Pdfminer\<rparr>)
     [99, 46, 112, 100, 102] =
     Inl (Exception [53581, 49828, 53944, 32, 52628, 52636, 32, 49892, 54056, 58, 32,
                     112, 100, 102, 109, 105, 110, 101, 114, 32, 52628, 52636, 32,
                     49892, 54056, 58, 32, 98, 97, 100])"
  by (simp_all add: extract_text_from_pdf_def reraise_def sample_fields sample_wrapper default_toggles)

lemma sample_paths:
  "output_path cfg = [111, 117, 116] \<Longrightarrow>
   text_file sample_libraries cfg [97, 46, 112, 100, 102] = [111, 117, 116, 47, 97, 46, 116, 120, 116]"
  "output_path cfg = [111, 117, 116] \<Longrightarrow>
   text_file sample_libraries cfg [98, 46, 112, 100, 102] = [111, 117, 116, 47, 98, 46, 116, 120, 116]"
  "output_path cfg = [111, 117, 116] \<Longrightarrow>
   text_file sample_libraries cfg [99, 46, 112, 100, 102] = [111, 117, 116, 47, 99, 46, 116, 120, 116]"
  "output_path cfg = [111, 117, 116] \<Longrightarrow>
   error_file sample_libraries cfg [99, 46, 112, 100, 102]
     = [111, 117, 116, 47, 99, 95, 50724, 47448, 46, 116, 120, 116]"
  "basename sample_libraries [98, 46, 112, 100, 102] = [98, 46, 112, 100, 102]"
  "basename sample_libraries [99, 46, 112, 100, 102] = [99, 46, 112, 100, 102]"
  by (simp_all add: text_file_def error_file_def text_name_def error_name_def sample_fields
      posix_basename_def posix_stem_def posix_join_def)

text \<open>
  Claim C4, as amended. A batch of three files runs without cancellation and every
  write succeeds in UTF-8; file A yields text that is not blank and file B yields blank
  text. Then A gets its text and B the explanation that no text was found, each in its
  \<open>.txt\<close> file. When the selector is in use (the smart mode or the mode that tries
  every library) and every backend raises on C, the selector skips them all and returns
  the empty text: C gets the explanation that no text was found, in its \<open>.txt\<close>
  file, and the summary counts success 1, empty 2, error 0. When the extraction of C
  itself raises, as a pinned backend does, C gets the explanation of the error in the
  file with the suffix \<open>_\<close>, U+C624, U+B958 before \<open>.txt\<close>, and the summary counts
  success 1, empty 1, error 1.
\<close>

theorem batch_of_three:
  assumes out: "output_path cfg \<noteq> []"
    and wr: "\<forall>p. can_write lib p utf8 Replace"
    and A: "extract_text_from_pdf lib cfg pA = Inr tA" and A': "strip tA \<noteq> []"
    and B: "extract_text_from_pdf lib cfg pB = Inr tB" and B': "strip tB = []"
  shows "(extraction_method cfg \<in> {SmartKorean, AllMethods}
          \<and> (\<forall>(n, f)\<in>set (available_methods lib cfg). \<exists>e. f pC = Inl e) \<longrightarrow>
            start_conversion lib cfg (\<lambda>i. False) [pA, pB, pC] d =
              Some (\<lparr>is_converting = False,
                     disk = d(text_file lib cfg pA \<mapsto> (utf8, Replace, tA),
                              text_file lib cfg pB \<mapsto> (utf8, Replace, empty_message (basename lib pB)),
                              text_file lib cfg pC \<mapsto> (utf8, Replace, empty_message (basename lib pC))),
                     success_count = 1, empty_count = 2, error_count = 0,
                     korean_recovered = (if count_chars is_hangul tA > 0 then 1 else 0)\<rparr>,
                    Some \<lparr>succeeded = 1,
                          recovered = (if count_chars is_hangul tA > 0 then 1 else 0),
                          empty = 2, failed = 0, total = 3\<rparr>))
       \<and> (extract_text_from_pdf lib cfg pC = Inl (Exception msg) \<longrightarrow>
            start_conversion lib cfg (\<lambda>i. False) [pA, pB, pC] d =
              Some (\<lparr>is_converting = False,
                     disk = d(text_file lib cfg pA \<mapsto> (utf8, Replace, tA),
                              text_file lib cfg pB \<mapsto> (utf8, Replace, empty_message (basename lib pB)),
                              error_file lib cfg pC \<mapsto> (utf8, Replace, error_message cfg (basename lib pC) msg)),
                     success_count = 1, empty_count = 1, error_count = 1,
                     korean_recovered = (if count_chars is_hangul tA > 0 then 1 else 0)\<rparr>,
                    Some \<lparr>succeeded = 1,
                          recovered = (if count_chars is_hangul tA > 0 then 1 else 0),
                          empty = 1, failed = 1, total = 3\<rparr>))"
proof -
  note t = three_files [OF out wr A A' B B', of pC "[]" d msg]
  have "extract_text_from_pdf lib cfg pC = Inr [] \<and> strip [] = []"
    if "extraction_method cfg \<in> {SmartKorean, AllMethods}
          \<and> (\<forall>(n, f)\<in>set (available_methods lib cfg). \<exists>e. f pC = Inl e)"
    using that smart_all_raise [of cfg lib pC] by (simp add: strip_def)
  with t show ?thesis by blast
qed

theorem batch_of_three_witness:
  "start_conversion sample_libraries default_settings (\<lambda>i. False)
     [[97, 46, 112, 100, 102], [98, 46, 112, 100, 102], [99, 46, 112, 100, 102]] Map.empty =
     Some (\<lparr>is_converting = False,
            disk = [[111, 117, 116, 47, 97, 46, 116, 120, 116] \<mapsto> (utf8, Replace, [97, 98, 99]),
                    [111, 117, 116, 47, 98, 46, 116, 120, 116]
                      \<mapsto> (utf8, Replace, empty_message [98, 46, 112, 100, 102]),
                    [111, 117, 116, 47, 99, 46, 116, 120, 116]
                      \<mapsto> (utf8, Replace, empty_message [99, 46, 112, 100, 102])],
            success_count = 1, empty_count = 2, error_count = 0, korean_recovered = 0\<rparr>,
           Some \<lparr>succeeded = 1, recovered = 0, empty = 2, failed = 0, total = 3\<rparr>)
   \<and> start_conversion sample_libraries (default_settings\<lparr>extraction_method := Pdfminer\<rparr>)
       (\<lambda>i. False)
       [[97, 46, 112, 100, 102], [98, 46, 112, 100, 102], [99, 46, 112, 100, 102]] Map.empty =
     Some (\<lparr>is_converting = False,
            disk = [[111, 117, 116, 47, 97, 46, 116, 120, 116] \<mapsto> (utf8, Replace, [97, 98, 99]),
                    [111, 117, 116, 47, 98, 46, 116, 120, 116]
                      \<mapsto> (utf8, Replace, empty_message [98, 46, 112, 100, 102]),
                    [111, 117, 116, 47, 99, 95, 50724, 47448, 46, 116, 120, 116]
                      \<mapsto> (utf8, Replace,
                           error_message (default_settings\<lparr>extraction_method := Pdfminer\<rparr>)
                             [99, 46, 112, 100, 102]
                             [53581, 49828, 53944, 32, 52628, 52636, 32, 49892, 54056, 58, 32,
                              112, 100, 102, 109, 105, 110, 101, 114, 32, 52628, 52636, 32,
                              49892, 54056, 58, 32, 98, 97, 100])],
            success_count = 1, empty_count = 1, error_count = 1, korean_recovered = 0\<rparr>,
           Some \<lparr>succeeded = 1, recovered = 0, empty = 1, failed = 1, total = 3\<rparr>)"
proof -
  let ?pin = "default_settings\<lparr>extraction_method := Pdfminer\<rparr>"
  have o: "output_path default_settings = [111, 117, 116]" "output_path ?pin = [111, 117, 116]"
    by (simp_all add: default_settings_def)
  then have out: "output_path default_settings \<noteq> []" "output_path ?pin \<noteq> []"
    by simp_all
  have wr: "\<forall>p. can_write sample_libraries p utf8 Replace"
    by (simp add: sample_fields)
  have s: "strip [97, 98, 99] \<noteq> []" "strip [] = []"
    by (simp_all add: strip_def is_space_def)
  have k: "count_chars is_hangul [97, 98, 99] = 0"
    by (simp add: count_chars_def is_hangul_def)
  have m: "extraction_method default_settings \<in> {SmartKorean, AllMethods}"
    by (simp add: default_settings_def)
  have r: "\<forall>(n, f)\<in>set (available_methods sample_libraries default_settings).
             \<exists>e. f [99, 46, 112, 100, 102] = Inl e"
    by (simp add: sample_methods sample_wrapper default_toggles)
  have h: "extraction_method default_settings \<in> {SmartKorean, AllMethods}
          \<and> (\<forall>(n, f)\<in>set (available_methods sample_libraries default_settings).
                \<exists>e. f [99, 46, 112, 100, 102] = Inl e)"
    using m r by blast
  from batch_of_three [OF out(1) wr sample_smart(1) s(1) sample_smart(2) s(2),
      of "[99, 46, 112, 100, 102]" Map.empty, THEN conjunct1, THEN mp, OF h]
  have 1: "start_conversion sample_libraries default_settings (\<lambda>i. False)
     [[97, 46, 112, 100, 102], [98, 46, 112, 100, 102], [99, 46, 112, 100, 102]] Map.empty =
     Some (\<lparr>is_converting = False,
            disk = [[111, 117, 116, 47, 97, 46, 116, 120, 116] \<mapsto> (utf8, Replace, [97, 98, 99]),
                    [111, 117, 116, 47, 98, 46, 116, 120, 116]
                      \<mapsto> (utf8, Replace, empty_message [98, 46, 112, 100, 102]),
                    [111, 117, 116, 47, 99, 46, 116, 120, 116]
                      \<mapsto> (utf8, Replace, empty_message [99, 46, 112, 100, 102])],
            success_count = 1, empty_count = 2, error_count = 0, korean_recovered = 0\<rparr>,
           Some \<lparr>succeeded = 1, recovered = 0, empty = 2, failed = 0, total = 3\<rparr>)"
    by (simp add: k sample_paths o)
  from batch_of_three [OF out(2) wr sample_pinned(1) s(1) sample_pinned(2) s(2),
      of "[99, 46, 112, 100, 102]" Map.empty, THEN conjunct2, THEN mp, OF sample_pinned(3)]
  have 2: "start_conversion sample_libraries ?pin (\<lambda>i. False)
       [[97, 46, 112, 100, 102], [98, 46, 112, 100, 102], [99, 46, 112, 100, 102]] Map.empty =
     Some (\<lparr>is_converting = False,
            disk = [[111, 117, 116, 47, 97, 46, 116, 120, 116] \<mapsto> (utf8, Replace, [97, 98, 99]),
                    [111, 117, 116, 47, 98, 46, 116, 120, 116]
                      \<mapsto> (utf8, Replace, empty_message [98, 46, 112, 100, 102]),
                    [111, 117, 116, 47, 99, 95, 50724, 47448, 46, 116, 120, 116]
                      \<mapsto> (utf8, Replace,
                           error_message ?pin [99, 46, 112, 100, 102]
                             [53581, 49828, 53944, 32, 52628, 52636, 32, 49892, 54056, 58, 32,
                              112, 100, 102, 109, 105, 110, 101, 114, 32, 52628, 52636, 32,
                              49892, 54056, 58, 32, 98, 97, 100])],
            success_count = 1, empty_count = 1, error_count = 1, korean_recovered = 0\<rparr>,
           Some \<lparr>succeeded = 1, recovered = 0, empty = 1, failed = 1, total = 3\<rparr>)"
    by (simp add: k sample_paths o)
  from 1 2 show ?thesis by simp
qed

text \<open>
  Claim C4 as stated fails in the smart mode, which is the default: with a backend that
  reads \<open>a.pdf\<close>, finds blanks in \<open>b.pdf\<close> and raises on \<open>c.pdf\<close>, the summary
  counts two empty files and no error, and no error file is written for \<open>c.pdf\<close>.
\<close>

theorem all_backends_raise_counts_as_empty:
  "map_option snd
     (start_conversion sample_libraries default_settings (\<lambda>i. False)
        [[97, 46, 112, 100, 102], [98, 46, 112, 100, 102], [99, 46, 112, 100, 102]] Map.empty)
     = Some (Some \<lparr>succeeded = 1, recovered = 0, empty = 2, failed = 0, total = 3\<rparr>)
   \<and> map_option (\<lambda>x. disk (fst x) [111, 117, 116, 47, 99, 95, 50724, 47448, 46, 116, 120, 116])
     (start_conversion sample_libraries default_settings (\<lambda>i. False)
        [[97, 46, 112, 100, 102], [98, 46, 112, 100, 102], [99, 46, 112, 100, 102]] Map.empty)
     = Some None"
proof -
  have o: "output_path default_settings = [111, 117, 116]"
    by (simp add: default_settings_def)
  then have out: "output_path default_settings \<noteq> []"
    by simp
  have wr: "\<forall>p. can_write sample_libraries p utf8 Replace"
    by (simp add: sample_fields)
  have s: "strip [97, 98, 99] \<noteq> []" "strip [] = []"
    by (simp_all add: strip_def is_space_def)
  have k: "count_chars is_hangul [97, 98, 99] = 0"
    by (simp add: count_chars_def is_hangul_def)
  have c: "extract_text_from_pdf sample_libraries default_settings [99, 46, 112, 100, 102] = Inr []
           \<and> strip [] = []"
    using sample_smart(3) s(2) by simp
  from three_files [OF out wr sample_smart(1) s(1) sample_smart(2) s(2),
      of "[99, 46, 112, 100, 102]" "[]" Map.empty, THEN conjunct1, THEN mp, OF c]
  show ?thesis
    by (simp add: k sample_paths o)
qed

text \<open>
  Claim C8, as amended. The flag is first found cleared when the files \<open>processed\<close>
  are done. Then exactly these files have been converted, in order, so that their
  outputs are on the disk, no file of \<open>rest\<close> is touched, and no summary is shown:
  the summary is shown only when the flag is still set after the loop.
\<close>

theorem cancelled_batch:
  assumes "output_path cfg \<noteq> []" and "processed @ rest \<noteq> []"
    and "\<forall>i<length processed. \<not> stop i" and "stop (length processed)"
  shows "start_conversion lib cfg stop (processed @ rest) d =
           Some (conversion_finished
                   (foldl (\<lambda>r p. convert_one lib cfg p r) (fresh_run d) processed), None)"
proof -
  have f: "fresh_run d\<lparr>success_count := 0, empty_count := 0, error_count := 0, korean_recovered := 0\<rparr>
          = fresh_run d"
    by (simp add: fresh_run_def)
  have i: "is_converting (fresh_run d)"
    by (simp add: fresh_run_def)
  have "convert_loop lib cfg stop 0 (processed @ rest) (fresh_run d)
          = stop_conversion (foldl (\<lambda>r p. convert_one lib cfg p r) (fresh_run d) processed)"
    using assms(3,4) by (intro convert_loop_stop [OF i]) simp_all
  then have "convert_files lib cfg stop (processed @ rest) (fresh_run d) =
          (conversion_finished
             (foldl (\<lambda>r p. convert_one lib cfg p r) (fresh_run d) processed), None)"
    by (simp add: convert_files_def f Let_def stop_conversion_def conversion_finished_def)
  with assms(1,2) show ?thesis
    by (simp add: start_conversion_runs)
qed

lemma sample_first_file:
  "convert_one sample_libraries default_settings [97, 46, 112, 100, 102] (fresh_run Map.empty) =
     \<lparr>is_converting = True,
      disk = [[111, 117, 116, 47, 97, 46, 116, 120, 116] \<mapsto> (utf8, Replace, [97, 98, 99])],
      success_count = 1, empty_count = 0, error_count = 0, korean_recovered = 0\<rparr>"
proof -
  have o: "output_path default_settings = [111, 117, 116]"
    by (simp add: default_settings_def)
  have s: "strip [97, 98, 99] \<noteq> []"
    by (simp add: strip_def is_space_def)
  have k: "count_chars is_hangul [97, 98, 99] = 0"
    by (simp add: count_chars_def is_hangul_def)
  have w: "can_write sample_libraries
             (path_join sample_libraries (output_path default_settings)
                (text_name sample_libraries (basename sample_libraries [97, 46, 112, 100, 102])))
             [117, 116, 102, 45, 56] Replace"
    by (simp add: sample_fields)
  have p: "path_join sample_libraries (output_path default_settings)
                (text_name sample_libraries (basename sample_libraries [97, 46, 112, 100, 102]))
           = [111, 117, 116, 47, 97, 46, 116, 120, 116]"
    using sample_paths(1) [OF o] by (simp add: text_file_def)
  show ?thesis
    unfolding convert_one_success [OF sample_smart(1) s w] p
    by (simp add: k fresh_run_def utf8_def)
qed

theorem cancelled_batch_witness:
  "start_conversion sample_libraries default_settings (\<lambda>i. i = 1)
     [[97, 46, 112, 100, 102], [98, 46, 112, 100, 102], [99, 46, 112, 100, 102]] Map.empty =
     Some (\<lparr>is_converting = False,
            disk = [[111, 117, 116, 47, 97, 46, 116, 120, 116] \<mapsto> (utf8, Replace, [97, 98, 99])],
            success_count = 1, empty_count = 0, error_count = 0, korean_recovered = 0\<rparr>,
           None)"
proof -
  have out: "output_path default_settings \<noteq> []"
    by (simp add: default_settings_def)
  have ne: "[[97, 46, 112, 100, 102]] @ [[98, 46, 112, 100, 102], [99, 46, 112, 100, 102]] \<noteq> ([] :: ustring list)"
    by simp
  have a: "\<forall>i<length [[97, 46, 112, 100, 102 :: nat]]. \<not> (\<lambda>i. i = 1) i"
    by simp
  have b: "(\<lambda>i. i = 1) (length [[97, 46, 112, 100, 102 :: nat]])"
    by simp
  from cancelled_batch [of default_settings "[[97, 46, 112, 100, 102]]"
      "[[98, 46, 112, 100, 102], [99, 46, 112, 100, 102]]" "\<lambda>i. i = 1" sample_libraries Map.empty,
      OF out ne a b]
  show ?thesis
    by (simp add: sample_first_file conversion_finished_def)
qed

text \<open>
  Claim C8 as stated fails: cancelling after the first of three files leaves one output
  and shows no summary at all.
\<close>

theorem cancelled_batch_shows_no_summary:
  "map_option snd
     (start_conversion sample_libraries default_settings (\<lambda>i. i = 1)
        [[97, 46, 112, 100, 102], [98, 46, 112, 100, 102], [99, 46, 112, 100, 102]] Map.empty)
     = Some None"
proof -
  let ?files = "[[97, 46, 112, 100, 102], [98, 46, 112, 100, 102], [99, 46, 112, 100, 102]]
                  :: ustring list"
  have out: "output_path default_settings \<noteq> []"
    by (simp add: default_settings_def)
  have i: "is_converting (fresh_run Map.empty)"
    by (simp add: fresh_run_def)
  have f: "fresh_run Map.empty\<lparr>success_count := 0, empty_count := 0, error_count := 0,
             korean_recovered := 0\<rparr> = fresh_run Map.empty"
    by (simp add: fresh_run_def)
  have "convert_loop sample_libraries default_settings (\<lambda>i. i = 1) 0
          ([[97, 46, 112, 100, 102]] @ [[98, 46, 112, 100, 102], [99, 46, 112, 100, 102]])
          (fresh_run Map.empty)
        = stop_conversion
            (foldl (\<lambda>r p. convert_one sample_libraries default_settings p r)
               (fresh_run Map.empty) [[97, 46, 112, 100, 102]])"
    by (rule convert_loop_stop [OF i]) simp_all
  then have "snd (convert_files sample_libraries default_settings (\<lambda>i. i = 1) ?files
                    (fresh_run Map.empty)) = None"
    by (simp add: convert_files_def f Let_def stop_conversion_def)
  then show ?thesis
    using out by (simp add: start_conversion_runs)
qed

end
